theory Spec2Isabelle
  imports Complex_Main
begin

section \<open>Data model (shared/schema.ts)\<close>

text \<open>
  Amounts are JavaScript numbers or decimal strings in the source. A decimal string is
  represented by the number it denotes, a rational, and rounding of binary floating point
  is not represented. Balances come from \<open>getTokenBalance\<close>, which formats a finite
  number, so they are always numbers; \<open>cfg_minTransferAmount\<close> is what \<open>parseFloat\<close>
  makes of the stored string, \<open>None\<close> for \<open>NaN\<close>. In the other optional fields
  \<open>None\<close> is \<open>null\<close>. Record identifiers (\<open>randomUUID()\<close>) are fresh numbers
  taken from a counter, timestamps are numbers. Titles, descriptions and metadata of
  activity records and the payloads of broadcast events are display text and are left out.
\<close>

datatype Urgency = Low | Medium | High

record WalletConfig =
  cfg_walletAddress :: string
  cfg_privateKey :: string
  cfg_safeWalletAddress :: string
  cfg_gasStrategy :: string
  cfg_minTransferAmount :: "rat option"
  cfg_autoSweepEnabled :: bool
  cfg_isActive :: bool

record Transaction =
  tx_id :: nat
  tx_walletAddress :: string
  tx_tokenAddress :: string
  tx_tokenSymbol :: string
  tx_tokenName :: string
  tx_amount :: rat
  tx_amountUSD :: "rat option"
  tx_txHash :: "string option"
  tx_status :: string
  tx_gasUsed :: "rat option"
  tx_gasPrice :: "rat option"
  tx_blockNumber :: "nat option"
  tx_createdAt :: nat
  tx_completedAt :: "nat option"

record TransactionUpdates =
  upd_txHash :: "string option"
  upd_status :: "string option"
  upd_gasUsed :: "rat option"
  upd_blockNumber :: "nat option"

record TokenDetection =
  det_id :: nat
  det_walletAddress :: string
  det_tokenAddress :: string
  det_tokenSymbol :: string
  det_tokenName :: string
  det_balance :: rat
  det_balanceUSD :: "rat option"
  det_tradingEnabled :: bool
  det_detectedAt :: nat
  det_lastCheckedAt :: nat

record DetectionUpdates =
  upd_balance :: "rat option"
  upd_balanceUSD :: "rat option"
  upd_tradingEnabled :: "bool option"

record Activity =
  act_id :: nat
  act_walletAddress :: string
  act_type :: string
  act_status :: string
  act_createdAt :: nat

record GasStrategy =
  gs_name :: string
  gs_multiplier :: rat

datatype ReceiptResult =
    RpcError
  | NoReceipt
  | Receipt (rc_gasUsed: nat) (rc_gasPrice: nat) (rc_blockNumber: "nat option") (rc_status: bool)

text \<open>The variables captured by one \<open>checkReceipt\<close> closure of \<open>monitorTransactionReceipt\<close>.\<close>

record Poll =
  poll_transactionId :: nat
  poll_txHash :: string
  poll_walletAddress :: string
  poll_attempts :: nat

section \<open>The ledger client and the clock (web3Service.ts)\<close>

text \<open>
  Every method of \<open>Web3Service\<close> that reaches the RPC node is an oracle. Its first argument
  is the number of oracle calls made so far (the field \<open>clock\<close> of the state), so that two
  calls with the same arguments may answer differently. \<open>None\<close> is a rejected promise.
  The four sub-checks of \<open>isContractTradingEnabled\<close> catch their own errors and answer
  \<open>false\<close> then, so they are total.
\<close>

record Web3 =
  getTokenBalance :: "nat \<Rightarrow> string \<Rightarrow> string \<Rightarrow> rat option"
  getTokenInfo :: "nat \<Rightarrow> string \<Rightarrow> (string \<times> string) option"
  getGasPrice :: "nat \<Rightarrow> rat option"
  transferToken :: "nat \<Rightarrow> string \<Rightarrow> string \<Rightarrow> string \<Rightarrow> rat \<Rightarrow> rat \<Rightarrow> string option"
  getTransactionReceipt :: "nat \<Rightarrow> string \<Rightarrow> ReceiptResult"
  checkUniswapV2Trading :: "nat \<Rightarrow> string \<Rightarrow> bool"
  checkUniswapV3Trading :: "nat \<Rightarrow> string \<Rightarrow> bool"
  checkContractTradingFlag :: "nat \<Rightarrow> string \<Rightarrow> bool"
  checkRecentTransactions :: "nat \<Rightarrow> string \<Rightarrow> bool"
  dateNow :: "nat \<Rightarrow> nat"

definition isContractTradingEnabled :: "Web3 \<Rightarrow> nat \<Rightarrow> string \<Rightarrow> bool" where
  "isContractTradingEnabled web3 n tokenAddress =
     (checkUniswapV2Trading web3 n tokenAddress \<or> checkUniswapV3Trading web3 n tokenAddress
      \<or> checkContractTradingFlag web3 n tokenAddress \<or> checkRecentTransactions web3 n tokenAddress)"

section \<open>Process state\<close>

text \<open>
  One record holds the module-level singletons: \<open>MemStorage\<close>, \<open>TokenSweeper\<close>,
  \<open>GasOptimizer\<close>, \<open>TokenDetector\<close>, and the timers of the event loop. Maps that are
  iterated keep their insertion order as lists. The last four fields are traces of what the
  process did to the outside: every call of \<open>sweepToken\<close>, every call of
  \<open>web3Service.transferToken\<close>, every receipt query with the delay of the timer that
  led to it, and every broadcast event (type and wallet).
\<close>

record State =
  walletConfigs :: "string \<Rightarrow> WalletConfig option"
  transactions :: "Transaction list"
  tokenDetections :: "TokenDetection list"
  activities :: "Activity list"
  nextId :: nat
  activeSweeps :: "string \<Rightarrow> bool option"
  currentNetworkLoad :: nat
  monitoringWallets :: "string list"
  knownTokens :: "(string \<times> string \<times> string) list"
  specificTokensToMonitor :: "string \<Rightarrow> string list option"
  intervals :: "(nat \<times> string) list"
  nextTimer :: nat
  runningScans :: "string list"
  timeouts :: "(nat \<times> Poll) list"
  clock :: nat
  sweepCalls :: "(string \<times> string \<times> string \<times> string \<times> rat \<times> Urgency) list"
  submitted :: "(string \<times> string \<times> rat \<times> rat) list"
  receiptQueries :: "(nat \<times> string) list"
  broadcasts :: "(string \<times> string) list"

definition tick :: "State \<Rightarrow> State" where
  "tick s = s\<lparr>clock := Suc (clock s)\<rparr>"

definition broadcast :: "string \<Rightarrow> string \<Rightarrow> State \<Rightarrow> State" where
  "broadcast type walletAddress s = s\<lparr>broadcasts := broadcasts s @ [(type, walletAddress)]\<rparr>"

subsection \<open>Strings and numbers\<close>

definition lowerChar :: "char \<Rightarrow> char" where
  "lowerChar c = (let n = (of_char c :: nat) in if 65 \<le> n \<and> n \<le> 90 then char_of (n + 32) else c)"

definition toLowerCase :: "string \<Rightarrow> string" where
  "toLowerCase = map lowerChar"

text \<open>
  \<open>Number.prototype.toFixed(k)\<close>: the nearest multiple of \<open>10^-k\<close>, ties upwards in
  magnitude.
\<close>

definition toFixed :: "nat \<Rightarrow> rat \<Rightarrow> rat" where
  "toFixed k x = (if x < 0 then - (of_int \<lfloor>(- x) * 10 ^ k + 1 / 2\<rfloor> / 10 ^ k)
                  else of_int \<lfloor>x * 10 ^ k + 1 / 2\<rfloor> / 10 ^ k)"

text \<open>\<open>a < b\<close> on JavaScript numbers where \<open>b\<close> may be \<open>NaN\<close>.\<close>

definition js_lt :: "rat \<Rightarrow> rat option \<Rightarrow> bool" where
  "js_lt a b = (case b of None \<Rightarrow> False | Some y \<Rightarrow> a < y)"

definition updateWhere :: "('a \<Rightarrow> bool) \<Rightarrow> ('a \<Rightarrow> 'a) \<Rightarrow> 'a list \<Rightarrow> 'a list" where
  "updateWhere P f xs = map (\<lambda>x. if P x then f x else x) xs"

section \<open>MemStorage (shared/schema.ts)\<close>

definition getWalletConfig :: "State \<Rightarrow> string \<Rightarrow> WalletConfig option" where
  "getWalletConfig s walletAddress = walletConfigs s walletAddress"

definition createTransaction ::
  "Web3 \<Rightarrow> string \<Rightarrow> string \<Rightarrow> string \<Rightarrow> string \<Rightarrow> rat \<Rightarrow> rat \<Rightarrow> string \<Rightarrow> rat
    \<Rightarrow> State \<Rightarrow> Transaction \<times> State" where
  "createTransaction web3 walletAddress tokenAddress tokenSymbol tokenName amount amountUSD status gasPrice s =
     (let tx = \<lparr>tx_id = nextId s, tx_walletAddress = walletAddress, tx_tokenAddress = tokenAddress,
                tx_tokenSymbol = tokenSymbol, tx_tokenName = tokenName, tx_amount = amount,
                tx_amountUSD = Some amountUSD, tx_txHash = None,
                tx_status = (if status = [] then ''pending'' else status),
                tx_gasUsed = None, tx_gasPrice = Some gasPrice, tx_blockNumber = None,
                tx_createdAt = dateNow web3 (clock s), tx_completedAt = None\<rparr>
      in (tx, s\<lparr>transactions := transactions s @ [tx], nextId := Suc (nextId s)\<rparr>))"

definition applyTransactionUpdates :: "Web3 \<Rightarrow> nat \<Rightarrow> TransactionUpdates \<Rightarrow> Transaction \<Rightarrow> Transaction" where
  "applyTransactionUpdates web3 now u existing =
     (let updated = existing\<lparr>
            tx_txHash := (case upd_txHash u of None \<Rightarrow> tx_txHash existing | Some h \<Rightarrow> Some h),
            tx_status := (case upd_status u of None \<Rightarrow> tx_status existing | Some st \<Rightarrow> st),
            tx_gasUsed := (case upd_gasUsed u of None \<Rightarrow> tx_gasUsed existing | Some g \<Rightarrow> Some g),
            tx_blockNumber := (case upd_blockNumber u of None \<Rightarrow> tx_blockNumber existing | Some b \<Rightarrow> Some b)\<rparr>
      in if upd_status u = Some ''completed'' \<and> tx_completedAt updated = None
         then updated\<lparr>tx_completedAt := Some (dateNow web3 now)\<rparr> else updated)"

definition updateTransaction :: "Web3 \<Rightarrow> nat \<Rightarrow> TransactionUpdates \<Rightarrow> State \<Rightarrow> State" where
  "updateTransaction web3 i u s =
     s\<lparr>transactions := updateWhere (\<lambda>tx. tx_id tx = i) (applyTransactionUpdates web3 (clock s) u) (transactions s)\<rparr>"

definition getTransactionsByStatus :: "State \<Rightarrow> string \<Rightarrow> Transaction list" where
  "getTransactionsByStatus s status = filter (\<lambda>tx. tx_status tx = status) (transactions s)"

text \<open>Newest detection first; \<open>Array.prototype.sort\<close> is stable, as \<open>sort_key\<close> is.\<close>

definition getTokenDetections :: "State \<Rightarrow> string \<Rightarrow> TokenDetection list" where
  "getTokenDetections s walletAddress =
     sort_key (\<lambda>d. - int (det_detectedAt d))
       (filter (\<lambda>d. det_walletAddress d = walletAddress) (tokenDetections s))"

definition createTokenDetection ::
  "Web3 \<Rightarrow> string \<Rightarrow> string \<Rightarrow> string \<Rightarrow> string \<Rightarrow> rat \<Rightarrow> rat \<Rightarrow> bool \<Rightarrow> State \<Rightarrow> State" where
  "createTokenDetection web3 walletAddress tokenAddress tokenName tokenSymbol balance balanceUSD tradingEnabled s =
     (let d = \<lparr>det_id = nextId s, det_walletAddress = walletAddress, det_tokenAddress = tokenAddress,
               det_tokenSymbol = tokenSymbol, det_tokenName = tokenName, det_balance = balance,
               det_balanceUSD = Some balanceUSD, det_tradingEnabled = tradingEnabled,
               det_detectedAt = dateNow web3 (clock s), det_lastCheckedAt = dateNow web3 (clock s)\<rparr>
      in s\<lparr>tokenDetections := tokenDetections s @ [d], nextId := Suc (nextId s)\<rparr>)"

definition applyDetectionUpdates :: "Web3 \<Rightarrow> nat \<Rightarrow> DetectionUpdates \<Rightarrow> TokenDetection \<Rightarrow> TokenDetection" where
  "applyDetectionUpdates web3 now u existing =
     existing\<lparr>
       det_balance := (case upd_balance u of None \<Rightarrow> det_balance existing | Some b \<Rightarrow> b),
       det_balanceUSD := (case upd_balanceUSD u of None \<Rightarrow> det_balanceUSD existing | Some b \<Rightarrow> Some b),
       det_tradingEnabled := (case upd_tradingEnabled u of None \<Rightarrow> det_tradingEnabled existing | Some b \<Rightarrow> b),
       det_lastCheckedAt := dateNow web3 now\<rparr>"

definition updateTokenDetection :: "Web3 \<Rightarrow> nat \<Rightarrow> DetectionUpdates \<Rightarrow> State \<Rightarrow> State" where
  "updateTokenDetection web3 i u s =
     s\<lparr>tokenDetections := updateWhere (\<lambda>d. det_id d = i) (applyDetectionUpdates web3 (clock s) u) (tokenDetections s)\<rparr>"

definition createActivity :: "Web3 \<Rightarrow> string \<Rightarrow> string \<Rightarrow> string \<Rightarrow> State \<Rightarrow> State" where
  "createActivity web3 walletAddress type status s =
     (let a = \<lparr>act_id = nextId s, act_walletAddress = walletAddress, act_type = type,
               act_status = status, act_createdAt = dateNow web3 (clock s)\<rparr>
      in s\<lparr>activities := activities s @ [a], nextId := Suc (nextId s)\<rparr>)"

section \<open>GasOptimizer (gasOptimizer.ts)\<close>

definition strategies :: "string \<Rightarrow> GasStrategy option" where
  "strategies = map_of
     [(''slow'', \<lparr>gs_name = ''Slow'', gs_multiplier = 8 / 10\<rparr>),
      (''standard'', \<lparr>gs_name = ''Standard'', gs_multiplier = 1\<rparr>),
      (''fast'', \<lparr>gs_name = ''Fast'', gs_multiplier = 13 / 10\<rparr>)]"

definition updateNetworkLoad :: "Web3 \<Rightarrow> State \<Rightarrow> State" where
  "updateNetworkLoad web3 s =
     (case getGasPrice web3 (clock s) of
        None \<Rightarrow> tick s
      | Some gasPriceGwei \<Rightarrow>
          tick (s\<lparr>currentNetworkLoad :=
                   (if gasPriceGwei < 20 then 25
                    else if gasPriceGwei < 50 then 50
                    else if gasPriceGwei < 100 then 75
                    else 95)\<rparr>))"

definition getOptimalGasPrice :: "Web3 \<Rightarrow> string \<Rightarrow> Urgency \<Rightarrow> State \<Rightarrow> rat \<times> State" where
  "getOptimalGasPrice web3 strategy urgency s =
     (case getGasPrice web3 (clock s) of
        None \<Rightarrow> (30, tick s)
      | Some baseGasPriceGwei \<Rightarrow>
          (let selectedStrategy =
                 (case strategies strategy of
                    Some g \<Rightarrow> g
                  | None \<Rightarrow> \<lparr>gs_name = ''Standard'', gs_multiplier = 1\<rparr>);
               gasPrice0 = baseGasPriceGwei * gs_multiplier selectedStrategy;
               gasPrice1 = (case urgency of
                              High \<Rightarrow> gasPrice0 * (12 / 10)
                            | Low \<Rightarrow> gasPrice0 * (9 / 10)
                            | Medium \<Rightarrow> gasPrice0);
               gasPrice2 = (if currentNetworkLoad s > 80 then gasPrice1 * (11 / 10)
                            else if currentNetworkLoad s < 30 then gasPrice1 * (95 / 100)
                            else gasPrice1);
               minGasPrice = 1;
               gasPrice3 = max gasPrice2 minGasPrice
           in (toFixed 2 gasPrice3, tick s)))"

section \<open>TokenSweeper (tokenSweeper.ts)\<close>

definition mockPrices :: "string \<Rightarrow> rat option" where
  "mockPrices = map_of
     [(''0xa0b86a33e6441b56c6b15fb8b0beaddd8f1af6c4'', 1),
      (''0x514910771af9ca656af840dff83e8264ecf986ca'', 145 / 10),
      (''0x1f9840a85d5af5bf1d1762f925bdaddc4201f984'', 68 / 10),
      (''0x2260fac5e5542a773aa44fbcfedf7c193bc2c599'', 45000),
      (''0x7fc66500c84a76ad7e9c93437bfc5ac33e2ddae9'', 853 / 10)]"

definition getTokenValueUSD :: "string \<Rightarrow> rat \<Rightarrow> rat" where
  "getTokenValueUSD tokenAddress balance =
     (let price = (case mockPrices (toLowerCase tokenAddress) of Some p \<Rightarrow> p | None \<Rightarrow> 0)
      in balance * price)"

definition sweepKey :: "string \<Rightarrow> string \<Rightarrow> string" where
  "sweepKey walletAddress tokenAddress = walletAddress @ ''-'' @ tokenAddress"

text \<open>
  \<open>monitorTransactionReceipt\<close> is not awaited: it only arms the first timer,
  \<open>setTimeout(checkReceipt, 10000)\<close>, with \<open>attempts = 0\<close>.
\<close>

definition monitorTransactionReceipt :: "nat \<Rightarrow> string \<Rightarrow> string \<Rightarrow> State \<Rightarrow> State" where
  "monitorTransactionReceipt transactionId txHash walletAddress s =
     s\<lparr>timeouts := timeouts s @
          [(10000, \<lparr>poll_transactionId = transactionId, poll_txHash = txHash,
                    poll_walletAddress = walletAddress, poll_attempts = 0\<rparr>)]\<rparr>"

text \<open>
  The \<open>try\<close> block of \<open>sweepToken\<close>. \<open>Inl\<close> is a thrown error, with the state reached
  when it was thrown; \<open>Inr\<close> is the value of a \<open>return\<close>. What can throw is the
  configuration check and \<open>web3Service.transferToken\<close>: the methods of \<open>MemStorage\<close>
  do not throw, \<open>getOptimalGasPrice\<close> catches its own errors, and the broadcast callback
  is taken not to throw. The trace \<open>submitted\<close> records the call of \<open>transferToken\<close>
  whether the ledger accepts the transfer or not.
\<close>

definition sweepTry ::
  "Web3 \<Rightarrow> string \<Rightarrow> string \<Rightarrow> string \<Rightarrow> string \<Rightarrow> rat \<Rightarrow> Urgency \<Rightarrow> State
    \<Rightarrow> (string + string option) \<times> State" where
  "sweepTry web3 walletAddress tokenAddress tokenSymbol tokenName balance urgency s =
     (case getWalletConfig s walletAddress of
        None \<Rightarrow> (Inl ''Wallet not configured or inactive'', s)
      | Some walletConfig \<Rightarrow>
          (if \<not> cfg_isActive walletConfig then (Inl ''Wallet not configured or inactive'', s)
           else
             (let balanceUSD = getTokenValueUSD tokenAddress balance;
                  minTransferUSD = cfg_minTransferAmount walletConfig
              in (if js_lt balanceUSD minTransferUSD then (Inr None, s)
                  else
                    (let (gasPrice, s1) = getOptimalGasPrice web3 (cfg_gasStrategy walletConfig) urgency s;
                         (transaction, s2) =
                            createTransaction web3 walletAddress tokenAddress tokenSymbol tokenName balance
                              (toFixed 2 balanceUSD) ''pending'' gasPrice s1;
                         s3 = createActivity web3 walletAddress ''transfer_started'' ''pending'' s2;
                         s4 = broadcast ''sweep_initiated'' walletAddress s3;
                         sent = transferToken web3 (clock s4) (cfg_privateKey walletConfig) tokenAddress
                                  (cfg_safeWalletAddress walletConfig) balance gasPrice;
                         s5 = tick (s4\<lparr>submitted := submitted s4 @
                                        [(walletAddress, tokenAddress, balance, gasPrice)]\<rparr>)
                     in (case sent of
                           None \<Rightarrow> (Inl ''transfer rejected'', s5)
                         | Some txHash \<Rightarrow>
                             (let s6 = updateTransaction web3 (tx_id transaction)
                                         \<lparr>upd_txHash = Some txHash, upd_status = Some ''completed'',
                                          upd_gasUsed = None, upd_blockNumber = None\<rparr> s5;
                                  s7 = createActivity web3 walletAddress ''transfer_completed'' ''completed'' s6;
                                  s8 = broadcast ''sweep_completed'' walletAddress s7;
                                  s9 = monitorTransactionReceipt (tx_id transaction) txHash walletAddress s8
                              in (Inr (Some txHash), s9))))))))"

text \<open>The \<open>catch\<close> block: the first pending transaction of this wallet and token is marked failed.\<close>

definition sweepCatch :: "Web3 \<Rightarrow> string \<Rightarrow> string \<Rightarrow> State \<Rightarrow> State" where
  "sweepCatch web3 walletAddress tokenAddress s =
     (case find (\<lambda>tx. tx_walletAddress tx = walletAddress \<and> tx_tokenAddress tx = tokenAddress)
             (getTransactionsByStatus s ''pending'') of
        None \<Rightarrow> s
      | Some failedTx \<Rightarrow>
          let s1 = updateTransaction web3 (tx_id failedTx)
                     \<lparr>upd_txHash = None, upd_status = Some ''failed'',
                      upd_gasUsed = None, upd_blockNumber = None\<rparr> s;
              s2 = createActivity web3 walletAddress ''transfer_failed'' ''failed'' s1
          in broadcast ''sweep_failed'' walletAddress s2)"

text \<open>
  \<open>sweepBody\<close> is \<open>try\<close>/\<open>catch\<close>/\<open>finally\<close>, entered with the lock taken; \<open>sweepToken\<close>
  is the guard in front of it. The guard and the \<open>set\<close> run without an \<open>await\<close> between
  them.
\<close>

definition sweepBody ::
  "Web3 \<Rightarrow> string \<Rightarrow> string \<Rightarrow> string \<Rightarrow> string \<Rightarrow> rat \<Rightarrow> Urgency \<Rightarrow> State
    \<Rightarrow> string option \<times> State" where
  "sweepBody web3 walletAddress tokenAddress tokenSymbol tokenName balance urgency s =
     (let (r, s1) = sweepTry web3 walletAddress tokenAddress tokenSymbol tokenName balance urgency s;
          (res, s2) = (case r of
                         Inr v \<Rightarrow> (v, s1)
                       | Inl err \<Rightarrow> (None, sweepCatch web3 walletAddress tokenAddress s1))
      in (res, s2\<lparr>activeSweeps := (activeSweeps s2)(sweepKey walletAddress tokenAddress := None)\<rparr>))"

definition sweepToken ::
  "Web3 \<Rightarrow> string \<Rightarrow> string \<Rightarrow> string \<Rightarrow> string \<Rightarrow> rat \<Rightarrow> Urgency \<Rightarrow> State
    \<Rightarrow> string option \<times> State" where
  "sweepToken web3 walletAddress tokenAddress tokenSymbol tokenName balance urgency s =
     (let s0 = s\<lparr>sweepCalls := sweepCalls s @
                    [(walletAddress, tokenAddress, tokenSymbol, tokenName, balance, urgency)]\<rparr>
      in if activeSweeps s0 (sweepKey walletAddress tokenAddress) = Some True then (None, s0)
         else sweepBody web3 walletAddress tokenAddress tokenSymbol tokenName balance urgency
                (s0\<lparr>activeSweeps := (activeSweeps s0)(sweepKey walletAddress tokenAddress \<mapsto> True)\<rparr>))"


subsection \<open>Confirmation polling\<close>

definition maxAttempts :: nat where
  "maxAttempts = 60"

text \<open>
  One run of the closure \<open>checkReceipt\<close>, fired by a timer of the given delay. The result
  says whether it armed \<open>setTimeout(checkReceipt, 5000)\<close> again, and with which
  \<open>attempts\<close>. A rejected receipt query is caught and logged, and arms nothing.
\<close>

definition checkReceipt :: "Web3 \<Rightarrow> nat \<Rightarrow> Poll \<Rightarrow> State \<Rightarrow> Poll option \<times> State" where
  "checkReceipt web3 delay p s =
     (let receipt = getTransactionReceipt web3 (clock s) (poll_txHash p);
          s1 = tick (s\<lparr>receiptQueries := receiptQueries s @ [(delay, poll_txHash p)]\<rparr>)
      in (case receipt of
            RpcError \<Rightarrow> (None, s1)
          | Receipt gasUsed gasPrice blockNumber status \<Rightarrow>
              (let gasCostETH = toFixed 6 (of_nat gasUsed * of_nat gasPrice / 10 ^ 18);
                   s2 = updateTransaction web3 (poll_transactionId p)
                          \<lparr>upd_txHash = None,
                           upd_status = Some (if status then ''completed'' else ''failed''),
                           upd_gasUsed = Some gasCostETH, upd_blockNumber = blockNumber\<rparr> s1
               in (None, broadcast ''transaction_receipt'' (poll_walletAddress p) s2))
          | NoReceipt \<Rightarrow>
              (let attempts = poll_attempts p + 1
               in (if attempts < maxAttempts then (Some (p\<lparr>poll_attempts := attempts\<rparr>), s1)
                   else (None, s1)))))"

text \<open>The chain of timer callbacks of one poll, from the timer that was armed to the last run.\<close>

function pollReceipt :: "Web3 \<Rightarrow> nat \<Rightarrow> Poll \<Rightarrow> State \<Rightarrow> State" where
  "pollReceipt web3 delay p s =
     (case checkReceipt web3 delay p s of
        (None, s') \<Rightarrow> s'
      | (Some p', s') \<Rightarrow> pollReceipt web3 5000 p' s')"
  by pat_completeness auto
termination
  by (relation "measure (\<lambda>(web3, delay, p, s). maxAttempts - poll_attempts p)")
     (auto simp: checkReceipt_def Let_def split: ReceiptResult.splits if_splits)

declare pollReceipt.simps [simp del]

text \<open>The event loop fires the oldest armed confirmation timer and runs its poll to the end.\<close>

definition timeoutFired :: "Web3 \<Rightarrow> State \<Rightarrow> State" where
  "timeoutFired web3 s =
     (case timeouts s of
        [] \<Rightarrow> s
      | (delay, p) # rest \<Rightarrow> pollReceipt web3 delay p (s\<lparr>timeouts := rest\<rparr>))"

definition emergencyStop :: "string option \<Rightarrow> State \<Rightarrow> State" where
  "emergencyStop walletAddress s =
     (case walletAddress of
        Some w \<Rightarrow> s\<lparr>activeSweeps := (\<lambda>key. if take (length w) key = w then None else activeSweeps s key)\<rparr>
      | None \<Rightarrow> s\<lparr>activeSweeps := (\<lambda>key. None)\<rparr>)"

section \<open>TokenDetector (tokenDetector.ts)\<close>

definition mapSet :: "'k \<Rightarrow> 'v \<Rightarrow> ('k \<times> 'v) list \<Rightarrow> ('k \<times> 'v) list" where
  "mapSet k v m = (if map_of m k = None then m @ [(k, v)]
                   else map (\<lambda>(k', v'). if k' = k then (k', v) else (k', v')) m)"

definition initialKnownTokens :: "(string \<times> string \<times> string) list" where
  "initialKnownTokens = map (\<lambda>(address, name, symbol). (toLowerCase address, name, symbol))
     [(''0xA0b86a33E6441b56C6B15fb8b0BeaDDD8F1aF6c4'', ''USD Coin'', ''USDC''),
      (''0x514910771AF9Ca656af840dff83E8264EcF986CA'', ''Chainlink'', ''LINK''),
      (''0x1f9840a85d5aF5bf1D1762F925BDADdC4201F984'', ''Uniswap'', ''UNI''),
      (''0x2260FAC5E5542a773Aa44fBCfeDf7C193bc2C599'', ''Wrapped Bitcoin'', ''WBTC''),
      (''0x7Fc66500c84A76Ad7e9c93437bFc5Ac33E2DDaE9'', ''Aave'', ''AAVE'')]"

definition tokenPrices :: "string \<Rightarrow> rat option" where
  "tokenPrices = map_of
     [(''0xa0b86a33e6441b56c6b15fb8b0beaddd8f1af6c4'', 1),
      (''0x514910771af9ca656af840dff83e8264ecf986ca'', 145 / 10),
      (''0x1f9840a85d5af5bf1d1762f925bdaddc4201f984'', 68 / 10),
      (''0x2260fac5e5542a773aa44fbcfedf7c193bc2c599'', 45000),
      (''0x7fc66500c84a76ad7e9c93437bfc5ac33e2ddae9'', 853 / 10)]"

definition calculateUSDValue :: "string \<Rightarrow> rat \<Rightarrow> rat" where
  "calculateUSDValue tokenAddress balance =
     (let price = (case tokenPrices (toLowerCase tokenAddress) of Some p \<Rightarrow> p | None \<Rightarrow> 0)
      in balance * price)"

definition addSpecificTokenToMonitor :: "string \<Rightarrow> string \<Rightarrow> State \<Rightarrow> State" where
  "addSpecificTokenToMonitor walletAddress tokenAddress s =
     (let tokens = (case specificTokensToMonitor s walletAddress of Some ts \<Rightarrow> ts | None \<Rightarrow> [])
      in if toLowerCase tokenAddress \<notin> set tokens
         then s\<lparr>specificTokensToMonitor :=
                  (specificTokensToMonitor s)(walletAddress \<mapsto> tokens @ [toLowerCase tokenAddress])\<rparr>
         else s)"

definition removeSpecificTokenFromMonitor :: "string \<Rightarrow> string \<Rightarrow> State \<Rightarrow> State" where
  "removeSpecificTokenFromMonitor walletAddress tokenAddress s =
     (let tokens = (case specificTokensToMonitor s walletAddress of Some ts \<Rightarrow> ts | None \<Rightarrow> [])
      in if toLowerCase tokenAddress \<in> set tokens
         then s\<lparr>specificTokensToMonitor :=
                  (specificTokensToMonitor s)(walletAddress \<mapsto> remove1 (toLowerCase tokenAddress) tokens)\<rparr>
         else s)"

definition handleNewTokenDetection ::
  "Web3 \<Rightarrow> string \<Rightarrow> string \<Rightarrow> string \<Rightarrow> string \<Rightarrow> rat \<Rightarrow> State \<Rightarrow> State" where
  "handleNewTokenDetection web3 walletAddress tokenAddress tokenName tokenSymbol balance s =
     (let balanceUSD = calculateUSDValue tokenAddress balance;
          s1 = createTokenDetection web3 walletAddress tokenAddress tokenName tokenSymbol balance
                 (toFixed 2 balanceUSD) False s
      in createActivity web3 walletAddress ''token_detected'' ''completed'' s1)"

text \<open>\<open>detections.find(d => d.tokenAddress.toLowerCase() === key)\<close>\<close>

definition findDetection :: "string \<Rightarrow> TokenDetection list \<Rightarrow> TokenDetection option" where
  "findDetection key detections = find (\<lambda>d. toLowerCase (det_tokenAddress d) = key) detections"

text \<open>
  What both scans do once trading is seen enabled on a detection whose flag is false is
  written out in each of them below, as in the source. A rejected balance query inside
  \<open>checkTradingStatus\<close> is caught by its own \<open>try\<close>.
\<close>

definition checkTradingStatus :: "Web3 \<Rightarrow> string \<Rightarrow> string \<Rightarrow> string \<Rightarrow> State \<Rightarrow> State" where
  "checkTradingStatus web3 walletAddress tokenAddress tokenSymbol s =
     (let tradingEnabled = isContractTradingEnabled web3 (clock s) tokenAddress;
          s1 = tick s;
          existingDetections = getTokenDetections s1 walletAddress
      in (case findDetection (toLowerCase tokenAddress) existingDetections of
            None \<Rightarrow> s1
          | Some detection \<Rightarrow>
              (if \<not> det_tradingEnabled detection \<and> tradingEnabled then
                 (let s2 = updateTokenDetection web3 (det_id detection)
                             \<lparr>upd_balance = None, upd_balanceUSD = None, upd_tradingEnabled = Some True\<rparr> s1;
                      s3 = createActivity web3 walletAddress ''trading_enabled'' ''active'' s2
                  in (case getWalletConfig s3 walletAddress of
                        None \<Rightarrow> s3
                      | Some walletConfig \<Rightarrow>
                          (if cfg_autoSweepEnabled walletConfig then
                             (case getTokenBalance web3 (clock s3) walletAddress tokenAddress of
                                None \<Rightarrow> tick s3
                              | Some currentBalance \<Rightarrow>
                                  snd (sweepToken web3 walletAddress tokenAddress tokenSymbol
                                         (det_tokenName detection) currentBalance High (tick s3)))
                           else s3)))
               else s1)))"

text \<open>The body of the loop of \<open>scanWalletForTokens\<close> for one entry of \<open>knownTokens\<close>.\<close>

definition scanKnownToken ::
  "Web3 \<Rightarrow> string \<Rightarrow> TokenDetection list \<Rightarrow> string \<times> string \<times> string \<Rightarrow> State \<Rightarrow> State" where
  "scanKnownToken web3 walletAddress existingDetections entry s =
     (case entry of (tokenAddress, tokenName, tokenSymbol) \<Rightarrow>
        (case getTokenBalance web3 (clock s) walletAddress tokenAddress of
           None \<Rightarrow> tick s
         | Some balance \<Rightarrow>
             (let s1 = tick s
              in (if balance > 0 then
                    (let s2 =
                       (if tokenAddress \<notin> set (map (\<lambda>d. toLowerCase (det_tokenAddress d)) existingDetections)
                        then handleNewTokenDetection web3 walletAddress tokenAddress tokenName tokenSymbol balance s1
                        else (case findDetection tokenAddress existingDetections of
                                None \<Rightarrow> s1
                              | Some existing \<Rightarrow>
                                  (if det_balance existing \<noteq> balance then
                                     updateTokenDetection web3 (det_id existing)
                                       \<lparr>upd_balance = Some balance,
                                        upd_balanceUSD = Some (toFixed 2 (calculateUSDValue tokenAddress balance)),
                                        upd_tradingEnabled = None\<rparr> s1
                                   else s1)))
                     in checkTradingStatus web3 walletAddress tokenAddress tokenSymbol s2)
                  else s1))))"

definition scanWalletForTokens :: "Web3 \<Rightarrow> string \<Rightarrow> State \<Rightarrow> State" where
  "scanWalletForTokens web3 walletAddress s =
     (let existingDetections = getTokenDetections s walletAddress
      in fold (scanKnownToken web3 walletAddress existingDetections) (knownTokens s) s)"

text \<open>
  The body of the loop of \<open>scanSpecificTokens\<close> for one registered token, in three
  parts: the detection is created or its balance updated (\<open>upsertSpecificDetection\<close>), the
  trading check with the immediate sweep (\<open>checkSpecificTrading\<close>), and around them the
  token metadata and balance queries (\<open>scanSpecificToken\<close>). A rejected query leaves the
  \<open>try\<close> of this token.
\<close>

definition upsertSpecificDetection ::
  "Web3 \<Rightarrow> string \<Rightarrow> string \<Rightarrow> string \<Rightarrow> string \<Rightarrow> rat \<Rightarrow> State
    \<Rightarrow> TokenDetection option \<times> State" where
  "upsertSpecificDetection web3 walletAddress tokenAddress tokenName tokenSymbol balance s =
     (case findDetection tokenAddress (getTokenDetections s walletAddress) of
        None \<Rightarrow>
          (let sn = handleNewTokenDetection web3 walletAddress tokenAddress tokenName tokenSymbol balance s
           in (findDetection tokenAddress (getTokenDetections sn walletAddress), sn))
      | Some d \<Rightarrow>
          (Some d,
           updateTokenDetection web3 (det_id d)
             \<lparr>upd_balance = Some balance,
              upd_balanceUSD = Some (toFixed 2 (calculateUSDValue tokenAddress balance)),
              upd_tradingEnabled = None\<rparr> s))"

definition checkSpecificTrading ::
  "Web3 \<Rightarrow> string \<Rightarrow> string \<Rightarrow> string \<Rightarrow> string \<Rightarrow> rat \<Rightarrow> TokenDetection option \<Rightarrow> State
    \<Rightarrow> State" where
  "checkSpecificTrading web3 walletAddress tokenAddress tokenName tokenSymbol balance detection s =
     (let tradingEnabled = isContractTradingEnabled web3 (clock s) tokenAddress;
          s4 = tick s
      in (case detection of
            None \<Rightarrow> s4
          | Some d \<Rightarrow>
              (if \<not> det_tradingEnabled d \<and> tradingEnabled then
                 (let s5 = updateTokenDetection web3 (det_id d)
                             \<lparr>upd_balance = None, upd_balanceUSD = None,
                              upd_tradingEnabled = Some True\<rparr> s4;
                      s6 = createActivity web3 walletAddress ''trading_enabled'' ''active'' s5;
                      s7 = broadcast ''trading_enabled'' walletAddress s6
                  in (case getWalletConfig s7 walletAddress of
                        None \<Rightarrow> s7
                      | Some walletConfig \<Rightarrow>
                          (if cfg_autoSweepEnabled walletConfig then
                             snd (sweepToken web3 walletAddress tokenAddress tokenSymbol
                                    tokenName balance High s7)
                           else s7)))
               else s4)))"

definition scanSpecificToken :: "Web3 \<Rightarrow> string \<Rightarrow> string \<Rightarrow> State \<Rightarrow> State" where
  "scanSpecificToken web3 walletAddress tokenAddress s =
     (let known =
            (case map_of (knownTokens s) tokenAddress of
               Some info \<Rightarrow> Some (info, s)
             | None \<Rightarrow>
                 (case getTokenInfo web3 (clock s) tokenAddress of
                    None \<Rightarrow> None
                  | Some info \<Rightarrow>
                      Some (info, tick (s\<lparr>knownTokens := mapSet tokenAddress info (knownTokens s)\<rparr>))))
      in (case known of
            None \<Rightarrow> tick s
          | Some ((tokenName, tokenSymbol), s1) \<Rightarrow>
              (case getTokenBalance web3 (clock s1) walletAddress tokenAddress of
                 None \<Rightarrow> tick s1
               | Some balance \<Rightarrow>
                   (let s2 = tick s1
                    in (if balance > 0 then
                          (let (detection, s3) =
                                 upsertSpecificDetection web3 walletAddress tokenAddress
                                   tokenName tokenSymbol balance s2
                           in checkSpecificTrading web3 walletAddress tokenAddress
                                tokenName tokenSymbol balance detection s3)
                        else s2)))))"

definition scanSpecificTokens :: "Web3 \<Rightarrow> string \<Rightarrow> State \<Rightarrow> State" where
  "scanSpecificTokens web3 walletAddress s =
     (case specificTokensToMonitor s walletAddress of
        None \<Rightarrow> s
      | Some specificTokens \<Rightarrow>
          (if specificTokens = [] then s
           else fold (scanSpecificToken web3 walletAddress) specificTokens s))"

definition addAndMonitorSpecificToken :: "Web3 \<Rightarrow> string \<Rightarrow> string \<Rightarrow> State \<Rightarrow> bool \<times> State" where
  "addAndMonitorSpecificToken web3 walletAddress tokenAddress s =
     (let s0 = addSpecificTokenToMonitor walletAddress tokenAddress s
      in (case getTokenInfo web3 (clock s0) tokenAddress of
            None \<Rightarrow> (False, tick s0)
          | Some (tokenName, tokenSymbol) \<Rightarrow>
              (let s1 = tick (s0\<lparr>knownTokens :=
                                   mapSet (toLowerCase tokenAddress) (tokenName, tokenSymbol) (knownTokens s0)\<rparr>)
               in (case getTokenBalance web3 (clock s1) walletAddress tokenAddress of
                     None \<Rightarrow> (False, tick s1)
                   | Some balance \<Rightarrow>
                       (let s2 = tick s1
                        in (if balance > 0 then
                              (let detection = findDetection (toLowerCase tokenAddress)
                                                 (getTokenDetections s2 walletAddress);
                                   s3 = (case detection of
                                           None \<Rightarrow> handleNewTokenDetection web3 walletAddress tokenAddress
                                                     tokenName tokenSymbol balance s2
                                         | Some d \<Rightarrow> s2);
                                   tradingEnabled = isContractTradingEnabled web3 (clock s3) tokenAddress;
                                   s4 = tick s3
                               in (if tradingEnabled then
                                     (case getWalletConfig s4 walletAddress of
                                        None \<Rightarrow> (True, s4)
                                      | Some walletConfig \<Rightarrow>
                                          (if cfg_autoSweepEnabled walletConfig then
                                             (True, snd (sweepToken web3 walletAddress tokenAddress tokenSymbol
                                                           tokenName balance High s4))
                                           else (True, s4)))
                                   else (True, s4)))
                            else (False, s2)))))))"

text \<open>
  \<open>manualSweepToken\<close> calls \<open>this.triggerAutoSweep\<close>, a method that the class
  \<open>TokenDetector\<close> does not have: the call throws a \<open>TypeError\<close>, which rejects the
  promise. The method takes no urgency.
\<close>

datatype DetectorError = TypeError string

definition manualSweepToken :: "string \<Rightarrow> string \<Rightarrow> State \<Rightarrow> (DetectorError + unit) \<times> State" where
  "manualSweepToken walletAddress tokenAddress s =
     (case findDetection (toLowerCase tokenAddress) (getTokenDetections s walletAddress) of
        None \<Rightarrow> (Inr (), s)
      | Some detection \<Rightarrow> (Inl (TypeError ''this.triggerAutoSweep is not a function''), s))"

text \<open>
  The handler of \<open>POST /api/wallet/:address/tokens/:tokenAddress/sweep\<close> (routes.ts), the
  path that the dashboard's manual sweep uses. \<open>Inl 404\<close> is the reply when the wallet has
  no detection of the token.
\<close>

definition sweepRoute :: "Web3 \<Rightarrow> string \<Rightarrow> string \<Rightarrow> Urgency \<Rightarrow> State \<Rightarrow> (nat + string option) \<times> State" where
  "sweepRoute web3 address tokenAddress urgency s =
     (case findDetection (toLowerCase tokenAddress) (getTokenDetections s address) of
        None \<Rightarrow> (Inl 404, s)
      | Some token \<Rightarrow>
          (let (txHash, s1) = sweepToken web3 address tokenAddress (det_tokenSymbol token)
                                (det_tokenName token) (det_balance token) urgency s
           in (Inr txHash, s1)))"

subsection \<open>The recurring scan\<close>

text \<open>
  \<open>intervals\<close> holds the armed \<open>setInterval\<close> timers with the wallet address each closure
  captured. A firing of a timer runs the synchronous head of the callback
  (\<open>intervalFired\<close>): it either clears the timer or starts the scan, which then is in
  \<open>runningScans\<close> until its awaited ledger queries have been answered
  (\<open>scanCompleted\<close>). The event loop fires an armed interval timer every 15000 ms whether
  or not an earlier callback's promise is settled.
\<close>

definition schedulePeriodicScan :: "string \<Rightarrow> State \<Rightarrow> State" where
  "schedulePeriodicScan walletAddress s =
     s\<lparr>intervals := intervals s @ [(nextTimer s, walletAddress)], nextTimer := Suc (nextTimer s)\<rparr>"

definition startMonitoring :: "Web3 \<Rightarrow> string \<Rightarrow> State \<Rightarrow> State" where
  "startMonitoring web3 walletAddress s =
     (let s1 = s\<lparr>monitoringWallets :=
                   (if toLowerCase walletAddress \<in> set (monitoringWallets s) then monitoringWallets s
                    else monitoringWallets s @ [toLowerCase walletAddress])\<rparr>;
          s2 = scanWalletForTokens web3 walletAddress s1
      in schedulePeriodicScan walletAddress s2)"

definition stopMonitoring :: "string \<Rightarrow> State \<Rightarrow> State" where
  "stopMonitoring walletAddress s =
     s\<lparr>monitoringWallets := removeAll (toLowerCase walletAddress) (monitoringWallets s)\<rparr>"

definition intervalFired :: "nat \<Rightarrow> State \<Rightarrow> State" where
  "intervalFired timer s =
     (case map_of (intervals s) timer of
        None \<Rightarrow> s
      | Some walletAddress \<Rightarrow>
          (if toLowerCase walletAddress \<notin> set (monitoringWallets s)
           then s\<lparr>intervals := filter (\<lambda>(t, w). t \<noteq> timer) (intervals s)\<rparr>
           else s\<lparr>runningScans := runningScans s @ [walletAddress]\<rparr>))"

text \<open>What the callback awaits inside its \<open>try\<close>: the wallet scan, then the specific tokens.\<close>

definition periodicScan :: "Web3 \<Rightarrow> string \<Rightarrow> State \<Rightarrow> State" where
  "periodicScan web3 walletAddress s =
     scanSpecificTokens web3 walletAddress (scanWalletForTokens web3 walletAddress s)"

definition scanCompleted :: "Web3 \<Rightarrow> string \<Rightarrow> State \<Rightarrow> State" where
  "scanCompleted web3 walletAddress s =
     (if walletAddress \<in> set (runningScans s) then
        (let s1 = periodicScan web3 walletAddress s
         in s1\<lparr>runningScans := remove1 walletAddress (runningScans s1)\<rparr>)
      else s)"

text \<open>The state of the process when the modules have been loaded.\<close>

definition initialState :: State where
  "initialState =
     \<lparr>walletConfigs = (\<lambda>w. None), transactions = [], tokenDetections = [], activities = [], nextId = 0,
      activeSweeps = (\<lambda>k. None), currentNetworkLoad = 0, monitoringWallets = [],
      knownTokens = initialKnownTokens, specificTokensToMonitor = (\<lambda>w. None),
      intervals = [], nextTimer = 0, runningScans = [], timeouts = [], clock = 0,
      sweepCalls = [], submitted = [], receiptQueries = [], broadcasts = []\<rparr>"

section \<open>The process as a state machine\<close>

text \<open>
  What can happen to the process: a request of the API (routes.ts), a timer of the event
  loop, or the completion of a scan that a timer started.
\<close>

datatype Event =
    StartMonitoring string
  | StopMonitoring string
  | AddSpecificToken string string
  | RemoveSpecificToken string string
  | AddAndMonitor string string
  | ManualSweep string string
  | SweepRequest string string Urgency
  | EmergencyStop "string option"
  | IntervalFired nat
  | ScanCompleted string
  | TimeoutFired
  | NetworkLoadTimer

fun engineStep :: "Web3 \<Rightarrow> Event \<Rightarrow> State \<Rightarrow> State" where
  "engineStep web3 (StartMonitoring w) s = startMonitoring web3 w s"
| "engineStep web3 (StopMonitoring w) s = stopMonitoring w s"
| "engineStep web3 (AddSpecificToken w t) s = addSpecificTokenToMonitor w t s"
| "engineStep web3 (RemoveSpecificToken w t) s = removeSpecificTokenFromMonitor w t s"
| "engineStep web3 (AddAndMonitor w t) s = snd (addAndMonitorSpecificToken web3 w t s)"
| "engineStep web3 (ManualSweep w t) s = snd (manualSweepToken w t s)"
| "engineStep web3 (SweepRequest w t urgency) s = snd (sweepRoute web3 w t urgency s)"
| "engineStep web3 (EmergencyStop w) s = emergencyStop w s"
| "engineStep web3 (IntervalFired timer) s = intervalFired timer s"
| "engineStep web3 (ScanCompleted w) s = scanCompleted web3 w s"
| "engineStep web3 TimeoutFired s = timeoutFired web3 s"
| "engineStep web3 NetworkLoadTimer s = updateNetworkLoad web3 s"

text \<open>
  The detection records of a later state extend those of an earlier one, record by record,
  and no transferability flag has gone from true to false.
\<close>

fun monotoneFlags :: "TokenDetection list \<Rightarrow> TokenDetection list \<Rightarrow> bool" where
  "monotoneFlags [] ds' = True"
| "monotoneFlags (d # ds) [] = False"
| "monotoneFlags (d # ds) (d' # ds') =
     (det_id d' = det_id d \<and> det_walletAddress d' = det_walletAddress d
      \<and> det_tokenAddress d' = det_tokenAddress d
      \<and> (det_tradingEnabled d \<longrightarrow> det_tradingEnabled d') \<and> monotoneFlags ds ds')"

definition enabledCount :: "State \<Rightarrow> nat" where
  "enabledCount s = length (filter det_tradingEnabled (tokenDetections s))"

section \<open>Scenarios and the spec's formulas\<close>

text \<open>
  A call of \<open>sweepToken\<close> gets as far as a transfer when the wallet has an active
  configuration and the value of the amount is not below its threshold.
\<close>

definition eligible :: "State \<Rightarrow> string \<Rightarrow> string \<Rightarrow> rat \<Rightarrow> bool" where
  "eligible s w t bal =
     (case getWalletConfig s w of
        None \<Rightarrow> False
      | Some cfg \<Rightarrow> cfg_isActive cfg \<and> \<not> js_lt (getTokenValueUSD t bal) (cfg_minTransferAmount cfg))"

text \<open>
  Overlapping calls of \<open>sweepToken\<close> for one wallet and token. The first call runs to
  its first \<open>await\<close>, which is inside the \<open>try\<close> block; while it is suspended
  there the other calls are made, one after the other (\<open>duplicateCalls\<close>); then the first
  call runs on to its end (\<open>sweepBody\<close>). The results are listed first call first.
\<close>

fun duplicateCalls ::
  "Web3 \<Rightarrow> string \<Rightarrow> string \<Rightarrow> (string \<times> string \<times> rat \<times> Urgency) list \<Rightarrow> State
    \<Rightarrow> string option list \<times> State" where
  "duplicateCalls web3 w t [] s = ([], s)"
| "duplicateCalls web3 w t ((tokenSymbol, tokenName, balance, urgency) # calls) s =
     (let (r, s1) = sweepToken web3 w t tokenSymbol tokenName balance urgency s;
          (rs, s2) = duplicateCalls web3 w t calls s1
      in (r # rs, s2))"

definition overlappingSweeps ::
  "Web3 \<Rightarrow> string \<Rightarrow> string \<Rightarrow> string \<times> string \<times> rat \<times> Urgency
    \<Rightarrow> (string \<times> string \<times> rat \<times> Urgency) list \<Rightarrow> State \<Rightarrow> string option list \<times> State" where
  "overlappingSweeps web3 w t first others s =
     (case first of (tokenSymbol, tokenName, balance, urgency) \<Rightarrow>
        (let s0 = s\<lparr>sweepCalls := sweepCalls s @ [(w, t, tokenSymbol, tokenName, balance, urgency)]\<rparr>
         in if activeSweeps s0 (sweepKey w t) = Some True then
              (let (rs, s1) = duplicateCalls web3 w t others s0 in (None # rs, s1))
            else
              (let s1 = s0\<lparr>activeSweeps := (activeSweeps s0)(sweepKey w t \<mapsto> True)\<rparr>;
                   (rs, s2) = duplicateCalls web3 w t others s1;
                   (r, s3) = sweepBody web3 w t tokenSymbol tokenName balance urgency s2
               in (r # rs, s3))))"

text \<open>
  A ledger with a base fee of half a gwei on which every token has balance 100 and is
  tradable through a Uniswap V2 pair, every transfer is accepted and no receipt ever
  arrives; and a process with one configured wallet.
\<close>

definition exampleWeb3 :: Web3 where
  "exampleWeb3 =
     \<lparr>getTokenBalance = (\<lambda>n w t. Some 100), getTokenInfo = (\<lambda>n t. Some (''Token'', ''TKN'')),
      getGasPrice = (\<lambda>n. Some (1 / 2)), transferToken = (\<lambda>n k t d a g. Some ''0xhash''),
      getTransactionReceipt = (\<lambda>n h. NoReceipt),
      checkUniswapV2Trading = (\<lambda>n t. True), checkUniswapV3Trading = (\<lambda>n t. False),
      checkContractTradingFlag = (\<lambda>n t. False), checkRecentTransactions = (\<lambda>n t. False),
      dateNow = (\<lambda>n. n)\<rparr>"

definition exampleConfig :: WalletConfig where
  "exampleConfig =
     \<lparr>cfg_walletAddress = ''0xw'', cfg_privateKey = ''key'', cfg_safeWalletAddress = ''0xsafe'',
      cfg_gasStrategy = ''standard'', cfg_minTransferAmount = Some 10,
      cfg_autoSweepEnabled = True, cfg_isActive = True\<rparr>"

definition exampleState :: State where
  "exampleState = initialState\<lparr>walletConfigs := (\<lambda>w. if w = ''0xw'' then Some exampleConfig else None),
                                currentNetworkLoad := 50\<rparr>"

text \<open>The same process while a sweep of token \<open>0xdead\<close> is in progress.\<close>

definition lockedState :: State where
  "lockedState = exampleState\<lparr>activeSweeps := (\<lambda>k. if k = sweepKey ''0xw'' ''0xdead'' then Some True else None)\<rparr>"





text \<open>The closure that \<open>monitorTransactionReceipt\<close> hands to its first timer.\<close>

definition firstPoll :: "nat \<Rightarrow> string \<Rightarrow> string \<Rightarrow> Poll" where
  "firstPoll transactionId txHash walletAddress =
     \<lparr>poll_transactionId = transactionId, poll_txHash = txHash,
      poll_walletAddress = walletAddress, poll_attempts = 0\<rparr>"

text \<open>
  The process after token \<open>0xdead\<close> has been detected in the wallet, the same with the
  flag of the detection set, with automatic sweeping switched off, and while the wallet is
  monitored by one timer.
\<close>

definition detectedState :: State where
  "detectedState = exampleState\<lparr>tokenDetections :=
     [\<lparr>det_id = 0, det_walletAddress = ''0xw'', det_tokenAddress = ''0xdead'', det_tokenSymbol = ''TKN'',
       det_tokenName = ''Token'', det_balance = 100, det_balanceUSD = Some 0, det_tradingEnabled = False,
       det_detectedAt = 0, det_lastCheckedAt = 0\<rparr>], nextId := 1\<rparr>"



definition monitoredState :: State where
  "monitoredState = exampleState\<lparr>monitoringWallets := [''0xw''], intervals := [(0, ''0xw'')], nextTimer := 1\<rparr>"

text \<open>The number of detection records with a given id whose flag is still false.\<close>

definition pendingFlags :: "State \<Rightarrow> nat \<Rightarrow> nat" where
  "pendingFlags s i = length (filter (\<lambda>d. det_id d = i \<and> \<not> det_tradingEnabled d) (tokenDetections s))"

section \<open>What each storage operation leaves unchanged\<close>

lemma getWalletConfig_eq [simp]: "getWalletConfig s w = walletConfigs s w"
  by (simp add: getWalletConfig_def)

lemma tick_frame [simp]:
  "walletConfigs (tick s) = walletConfigs s"
  "transactions (tick s) = transactions s"
  "tokenDetections (tick s) = tokenDetections s"
  "activities (tick s) = activities s"
  "nextId (tick s) = nextId s"
  "activeSweeps (tick s) = activeSweeps s"
  "currentNetworkLoad (tick s) = currentNetworkLoad s"
  "monitoringWallets (tick s) = monitoringWallets s"
  "knownTokens (tick s) = knownTokens s"
  "specificTokensToMonitor (tick s) = specificTokensToMonitor s"
  "intervals (tick s) = intervals s"
  "nextTimer (tick s) = nextTimer s"
  "runningScans (tick s) = runningScans s"
  "timeouts (tick s) = timeouts s"
  "sweepCalls (tick s) = sweepCalls s"
  "submitted (tick s) = submitted s"
  "receiptQueries (tick s) = receiptQueries s"
  "broadcasts (tick s) = broadcasts s"
  by (simp_all add: tick_def)

lemma broadcast_frame [simp]:
  "walletConfigs (broadcast ty w s) = walletConfigs s"
  "transactions (broadcast ty w s) = transactions s"
  "tokenDetections (broadcast ty w s) = tokenDetections s"
  "activities (broadcast ty w s) = activities s"
  "nextId (broadcast ty w s) = nextId s"
  "activeSweeps (broadcast ty w s) = activeSweeps s"
  "currentNetworkLoad (broadcast ty w s) = currentNetworkLoad s"
  "monitoringWallets (broadcast ty w s) = monitoringWallets s"
  "knownTokens (broadcast ty w s) = knownTokens s"
  "specificTokensToMonitor (broadcast ty w s) = specificTokensToMonitor s"
  "intervals (broadcast ty w s) = intervals s"
  "nextTimer (broadcast ty w s) = nextTimer s"
  "runningScans (broadcast ty w s) = runningScans s"
  "timeouts (broadcast ty w s) = timeouts s"
  "clock (broadcast ty w s) = clock s"
  "sweepCalls (broadcast ty w s) = sweepCalls s"
  "submitted (broadcast ty w s) = submitted s"
  "receiptQueries (broadcast ty w s) = receiptQueries s"
  by (simp_all add: broadcast_def)

lemma createTransaction_frame [simp]:
  "walletConfigs (snd (createTransaction web3 w t tsym tname a u st g s)) = walletConfigs s"
  "tokenDetections (snd (createTransaction web3 w t tsym tname a u st g s)) = tokenDetections s"
  "activities (snd (createTransaction web3 w t tsym tname a u st g s)) = activities s"
  "activeSweeps (snd (createTransaction web3 w t tsym tname a u st g s)) = activeSweeps s"
  "currentNetworkLoad (snd (createTransaction web3 w t tsym tname a u st g s)) = currentNetworkLoad s"
  "monitoringWallets (snd (createTransaction web3 w t tsym tname a u st g s)) = monitoringWallets s"
  "knownTokens (snd (createTransaction web3 w t tsym tname a u st g s)) = knownTokens s"
  "specificTokensToMonitor (snd (createTransaction web3 w t tsym tname a u st g s)) = specificTokensToMonitor s"
  "intervals (snd (createTransaction web3 w t tsym tname a u st g s)) = intervals s"
  "nextTimer (snd (createTransaction web3 w t tsym tname a u st g s)) = nextTimer s"
  "runningScans (snd (createTransaction web3 w t tsym tname a u st g s)) = runningScans s"
  "timeouts (snd (createTransaction web3 w t tsym tname a u st g s)) = timeouts s"
  "clock (snd (createTransaction web3 w t tsym tname a u st g s)) = clock s"
  "sweepCalls (snd (createTransaction web3 w t tsym tname a u st g s)) = sweepCalls s"
  "submitted (snd (createTransaction web3 w t tsym tname a u st g s)) = submitted s"
  "receiptQueries (snd (createTransaction web3 w t tsym tname a u st g s)) = receiptQueries s"
  "broadcasts (snd (createTransaction web3 w t tsym tname a u st g s)) = broadcasts s"
  by (simp_all add: createTransaction_def Let_def)

lemma updateTransaction_frame [simp]:
  "walletConfigs (updateTransaction web3 i u s) = walletConfigs s"
  "tokenDetections (updateTransaction web3 i u s) = tokenDetections s"
  "activities (updateTransaction web3 i u s) = activities s"
  "nextId (updateTransaction web3 i u s) = nextId s"
  "activeSweeps (updateTransaction web3 i u s) = activeSweeps s"
  "currentNetworkLoad (updateTransaction web3 i u s) = currentNetworkLoad s"
  "monitoringWallets (updateTransaction web3 i u s) = monitoringWallets s"
  "knownTokens (updateTransaction web3 i u s) = knownTokens s"
  "specificTokensToMonitor (updateTransaction web3 i u s) = specificTokensToMonitor s"
  "intervals (updateTransaction web3 i u s) = intervals s"
  "nextTimer (updateTransaction web3 i u s) = nextTimer s"
  "runningScans (updateTransaction web3 i u s) = runningScans s"
  "timeouts (updateTransaction web3 i u s) = timeouts s"
  "clock (updateTransaction web3 i u s) = clock s"
  "sweepCalls (updateTransaction web3 i u s) = sweepCalls s"
  "submitted (updateTransaction web3 i u s) = submitted s"
  "receiptQueries (updateTransaction web3 i u s) = receiptQueries s"
  "broadcasts (updateTransaction web3 i u s) = broadcasts s"
  by (simp_all add: updateTransaction_def)

lemma createTokenDetection_frame [simp]:
  "walletConfigs (createTokenDetection web3 w t tname tsym b u e s) = walletConfigs s"
  "transactions (createTokenDetection web3 w t tname tsym b u e s) = transactions s"
  "activities (createTokenDetection web3 w t tname tsym b u e s) = activities s"
  "activeSweeps (createTokenDetection web3 w t tname tsym b u e s) = activeSweeps s"
  "currentNetworkLoad (createTokenDetection web3 w t tname tsym b u e s) = currentNetworkLoad s"
  "monitoringWallets (createTokenDetection web3 w t tname tsym b u e s) = monitoringWallets s"
  "knownTokens (createTokenDetection web3 w t tname tsym b u e s) = knownTokens s"
  "specificTokensToMonitor (createTokenDetection web3 w t tname tsym b u e s) = specificTokensToMonitor s"
  "intervals (createTokenDetection web3 w t tname tsym b u e s) = intervals s"
  "nextTimer (createTokenDetection web3 w t tname tsym b u e s) = nextTimer s"
  "runningScans (createTokenDetection web3 w t tname tsym b u e s) = runningScans s"
  "timeouts (createTokenDetection web3 w t tname tsym b u e s) = timeouts s"
  "clock (createTokenDetection web3 w t tname tsym b u e s) = clock s"
  "sweepCalls (createTokenDetection web3 w t tname tsym b u e s) = sweepCalls s"
  "submitted (createTokenDetection web3 w t tname tsym b u e s) = submitted s"
  "receiptQueries (createTokenDetection web3 w t tname tsym b u e s) = receiptQueries s"
  "broadcasts (createTokenDetection web3 w t tname tsym b u e s) = broadcasts s"
  by (simp_all add: createTokenDetection_def Let_def)

lemma updateTokenDetection_frame [simp]:
  "walletConfigs (updateTokenDetection web3 i u s) = walletConfigs s"
  "transactions (updateTokenDetection web3 i u s) = transactions s"
  "activities (updateTokenDetection web3 i u s) = activities s"
  "nextId (updateTokenDetection web3 i u s) = nextId s"
  "activeSweeps (updateTokenDetection web3 i u s) = activeSweeps s"
  "currentNetworkLoad (updateTokenDetection web3 i u s) = currentNetworkLoad s"
  "monitoringWallets (updateTokenDetection web3 i u s) = monitoringWallets s"
  "knownTokens (updateTokenDetection web3 i u s) = knownTokens s"
  "specificTokensToMonitor (updateTokenDetection web3 i u s) = specificTokensToMonitor s"
  "intervals (updateTokenDetection web3 i u s) = intervals s"
  "nextTimer (updateTokenDetection web3 i u s) = nextTimer s"
  "runningScans (updateTokenDetection web3 i u s) = runningScans s"
  "timeouts (updateTokenDetection web3 i u s) = timeouts s"
  "clock (updateTokenDetection web3 i u s) = clock s"
  "sweepCalls (updateTokenDetection web3 i u s) = sweepCalls s"
  "submitted (updateTokenDetection web3 i u s) = submitted s"
  "receiptQueries (updateTokenDetection web3 i u s) = receiptQueries s"
  "broadcasts (updateTokenDetection web3 i u s) = broadcasts s"
  by (simp_all add: updateTokenDetection_def)

lemma createActivity_frame [simp]:
  "walletConfigs (createActivity web3 w ty st s) = walletConfigs s"
  "transactions (createActivity web3 w ty st s) = transactions s"
  "tokenDetections (createActivity web3 w ty st s) = tokenDetections s"
  "activeSweeps (createActivity web3 w ty st s) = activeSweeps s"
  "currentNetworkLoad (createActivity web3 w ty st s) = currentNetworkLoad s"
  "monitoringWallets (createActivity web3 w ty st s) = monitoringWallets s"
  "knownTokens (createActivity web3 w ty st s) = knownTokens s"
  "specificTokensToMonitor (createActivity web3 w ty st s) = specificTokensToMonitor s"
  "intervals (createActivity web3 w ty st s) = intervals s"
  "nextTimer (createActivity web3 w ty st s) = nextTimer s"
  "runningScans (createActivity web3 w ty st s) = runningScans s"
  "timeouts (createActivity web3 w ty st s) = timeouts s"
  "clock (createActivity web3 w ty st s) = clock s"
  "sweepCalls (createActivity web3 w ty st s) = sweepCalls s"
  "submitted (createActivity web3 w ty st s) = submitted s"
  "receiptQueries (createActivity web3 w ty st s) = receiptQueries s"
  "broadcasts (createActivity web3 w ty st s) = broadcasts s"
  by (simp_all add: createActivity_def Let_def)

lemma monitorTransactionReceipt_frame [simp]:
  "walletConfigs (monitorTransactionReceipt i h w s) = walletConfigs s"
  "transactions (monitorTransactionReceipt i h w s) = transactions s"
  "tokenDetections (monitorTransactionReceipt i h w s) = tokenDetections s"
  "activities (monitorTransactionReceipt i h w s) = activities s"
  "nextId (monitorTransactionReceipt i h w s) = nextId s"
  "activeSweeps (monitorTransactionReceipt i h w s) = activeSweeps s"
  "currentNetworkLoad (monitorTransactionReceipt i h w s) = currentNetworkLoad s"
  "monitoringWallets (monitorTransactionReceipt i h w s) = monitoringWallets s"
  "knownTokens (monitorTransactionReceipt i h w s) = knownTokens s"
  "specificTokensToMonitor (monitorTransactionReceipt i h w s) = specificTokensToMonitor s"
  "intervals (monitorTransactionReceipt i h w s) = intervals s"
  "nextTimer (monitorTransactionReceipt i h w s) = nextTimer s"
  "runningScans (monitorTransactionReceipt i h w s) = runningScans s"
  "clock (monitorTransactionReceipt i h w s) = clock s"
  "sweepCalls (monitorTransactionReceipt i h w s) = sweepCalls s"
  "submitted (monitorTransactionReceipt i h w s) = submitted s"
  "receiptQueries (monitorTransactionReceipt i h w s) = receiptQueries s"
  "broadcasts (monitorTransactionReceipt i h w s) = broadcasts s"
  by (simp_all add: monitorTransactionReceipt_def)

lemma createTransaction_transactions [simp]:
  "length (transactions (snd (createTransaction web3 w t tsym tname a u st g s))) = Suc (length (transactions s))"
  by (simp add: createTransaction_def Let_def)

lemma updateTransaction_length [simp]:
  "length (transactions (updateTransaction web3 i u s)) = length (transactions s)"
  by (simp add: updateTransaction_def updateWhere_def)

lemma applyTransactionUpdates_id [simp]: "tx_id (applyTransactionUpdates web3 n u tx) = tx_id tx"
  by (simp add: applyTransactionUpdates_def Let_def)

lemma updateTransaction_ids [simp]:
  "map tx_id (transactions (updateTransaction web3 i u s)) = map tx_id (transactions s)"
  by (simp add: updateTransaction_def updateWhere_def)

lemma getOptimalGasPrice_snd [simp]: "snd (getOptimalGasPrice web3 st u s) = tick s"
  by (simp add: getOptimalGasPrice_def Let_def split: option.splits)

section \<open>The sweep lock and the threshold\<close>

lemma sweepCatch_frame [simp]:
  "submitted (sweepCatch web3 w t s) = submitted s"
  "activeSweeps (sweepCatch web3 w t s) = activeSweeps s"
  "tokenDetections (sweepCatch web3 w t s) = tokenDetections s"
  "sweepCalls (sweepCatch web3 w t s) = sweepCalls s"
  "length (transactions (sweepCatch web3 w t s)) = length (transactions s)"
  by (simp_all add: sweepCatch_def Let_def split: option.splits)

lemma sweepCatch_ids [simp]:
  "map tx_id (transactions (sweepCatch web3 w t s)) = map tx_id (transactions s)"
  by (simp add: sweepCatch_def Let_def split: option.splits)


lemma sweepTry_submitted:
  "length (submitted (snd (sweepTry web3 w t tsym tname bal urg s))) =
     length (submitted s) + (if eligible s w t bal then 1 else 0)"
  by (simp add: sweepTry_def eligible_def Let_def case_prod_beta split: option.splits)

lemma sweepBody_submitted:
  "length (submitted (snd (sweepBody web3 w t tsym tname bal urg s))) =
     length (submitted s) + (if eligible s w t bal then 1 else 0)"
proof (cases "sweepTry web3 w t tsym tname bal urg s")
  case (Pair r s1)
  then have "length (submitted s1) = length (submitted s) + (if eligible s w t bal then 1 else 0)"
    using sweepTry_submitted [of web3 w t tsym tname bal urg s] by simp
  then show ?thesis
    by (cases r) (simp_all add: sweepBody_def Pair)
qed

lemma sweepToken_locked:
  "activeSweeps s (sweepKey w t) = Some True \<Longrightarrow>
   sweepToken web3 w t tsym tname bal urg s = (None, s\<lparr>sweepCalls := sweepCalls s @ [(w, t, tsym, tname, bal, urg)]\<rparr>)"
  by (simp add: sweepToken_def)

lemma duplicateCalls_locked:
  "activeSweeps s (sweepKey w t) = Some True \<Longrightarrow>
   duplicateCalls web3 w t cs s =
     (replicate (length cs) None,
      s\<lparr>sweepCalls := sweepCalls s @ map (\<lambda>(tsym, tname, bal, urg). (w, t, tsym, tname, bal, urg)) cs\<rparr>)"
proof (induction cs arbitrary: s)
  case Nil
  then show ?case by simp
next
  case (Cons c cs)
  obtain tsym tname bal urg where c: "c = (tsym, tname, bal, urg)" by (cases c) auto
  let ?s1 = "s\<lparr>sweepCalls := sweepCalls s @ [(w, t, tsym, tname, bal, urg)]\<rparr>"
  have l: "activeSweeps ?s1 (sweepKey w t) = Some True" using Cons.prems by simp
  show ?case
    using Cons.prems by (simp add: c sweepToken_locked Cons.IH [OF l])
qed

lemma sweepTry_below:
  assumes "walletConfigs s w = Some cfg" and "js_lt (getTokenValueUSD t bal) (cfg_minTransferAmount cfg)"
  shows "sweepTry web3 w t tsym tname bal urg s =
           ((if cfg_isActive cfg then Inr None else Inl ''Wallet not configured or inactive''), s)"
  using assms by (simp add: sweepTry_def)

lemma overlappingSweeps_alone:
  "overlappingSweeps web3 w t (tsym, tname, bal, urg) [] s = (\<lambda>(r, s'). ([r], s')) (sweepToken web3 w t tsym tname bal urg s)"
  by (simp add: overlappingSweeps_def sweepToken_def Let_def case_prod_beta)

lemma sweepBody_not_eligible:
  "\<not> eligible s w t bal \<Longrightarrow> fst (sweepBody web3 w t tsym tname bal urg s) = None"
  by (auto simp: sweepBody_def sweepTry_def eligible_def split: option.splits)

lemma overlappingSweeps_shape:
  "\<exists>r. fst (overlappingSweeps web3 w t (tsym, tname, bal, urg) others s) = r # replicate (length others) None
       \<and> (\<not> eligible s w t bal \<longrightarrow> r = None)"
proof (cases "activeSweeps s (sweepKey w t) = Some True")
  case True
  then show ?thesis
    by (simp add: overlappingSweeps_def Let_def case_prod_beta duplicateCalls_locked)
next
  case False
  let ?s2 = "s\<lparr>sweepCalls := sweepCalls s @ [(w, t, tsym, tname, bal, urg)],
               activeSweeps := (activeSweeps s)(sweepKey w t \<mapsto> True),
               sweepCalls := (sweepCalls s @ [(w, t, tsym, tname, bal, urg)])
                              @ map (\<lambda>(a, b, c, d). (w, t, a, b, c, d)) others\<rparr>"
  have e: "eligible ?s2 w t bal = eligible s w t bal" by (simp add: eligible_def)
  have "\<not> eligible s w t bal \<longrightarrow> fst (sweepBody web3 w t tsym tname bal urg ?s2) = None"
    using sweepBody_not_eligible [of ?s2 w t bal web3 tsym tname urg] e by simp
  then show ?thesis
    using False by (simp add: overlappingSweeps_def Let_def case_prod_beta duplicateCalls_locked)
qed

lemma overlappingSweeps_results:
  "tl (fst (overlappingSweeps web3 w t (tsym, tname, bal, urg) others s)) = replicate (length others) None"
  using overlappingSweeps_shape [of web3 w t tsym tname bal urg others s] by auto

lemma overlappingSweeps_submitted:
  "length (submitted (snd (overlappingSweeps web3 w t (tsym, tname, bal, urg) others s))) =
     length (submitted s) + (if activeSweeps s (sweepKey w t) \<noteq> Some True \<and> eligible s w t bal then 1 else 0)"
proof (cases "activeSweeps s (sweepKey w t) = Some True")
  case True
  then show ?thesis
    by (simp add: overlappingSweeps_def Let_def case_prod_beta duplicateCalls_locked)
next
  case False
  let ?s2 = "s\<lparr>sweepCalls := sweepCalls s @ [(w, t, tsym, tname, bal, urg)],
               activeSweeps := (activeSweeps s)(sweepKey w t \<mapsto> True),
               sweepCalls := (sweepCalls s @ [(w, t, tsym, tname, bal, urg)])
                              @ map (\<lambda>(a, b, c, d). (w, t, a, b, c, d)) others\<rparr>"
  have e: "eligible ?s2 w t bal = eligible s w t bal" by (simp add: eligible_def)
  have "length (submitted (snd (sweepBody web3 w t tsym tname bal urg ?s2))) =
          length (submitted ?s2) + (if eligible ?s2 w t bal then 1 else 0)"
    by (rule sweepBody_submitted)
  then show ?thesis
    using False e by (simp add: overlappingSweeps_def Let_def case_prod_beta duplicateCalls_locked)
qed

text \<open>
  C1, as amended. While the lock map holds the key of a wallet and token, a call of
  \<open>sweepToken\<close> for them returns null and changes nothing but the trace of calls: no
  transaction record, no activity record, no submission, no lock change. So of overlapping
  calls for one key every call but the first returns null, and together they submit what the
  first call submits on its own: one transfer when it holds the lock and passes its
  configuration and threshold checks, none otherwise.
\<close>

theorem sweepToken_lock_held:
  "(activeSweeps s (sweepKey w t) = Some True \<longrightarrow>
      sweepToken web3 w t tsym tname bal urg s =
        (None, s\<lparr>sweepCalls := sweepCalls s @ [(w, t, tsym, tname, bal, urg)]\<rparr>))
   \<and> tl (fst (overlappingSweeps web3 w t (tsym, tname, bal, urg) others s)) = replicate (length others) None
   \<and> length (submitted (snd (overlappingSweeps web3 w t (tsym, tname, bal, urg) others s))) =
       length (submitted s)
         + (if activeSweeps s (sweepKey w t) \<noteq> Some True \<and> eligible s w t bal then 1 else 0)"
  using sweepToken_locked [of s w t web3 tsym tname bal urg]
        overlappingSweeps_results [of web3 w t tsym tname bal urg others s]
        overlappingSweeps_submitted [of web3 w t tsym tname bal urg others s]
  by blast

theorem sweepToken_lock_held_witness:
  "activeSweeps lockedState (sweepKey ''0xw'' ''0xdead'') = Some True
   \<and> sweepToken exampleWeb3 ''0xw'' ''0xdead'' ''TKN'' ''Token'' 100 High lockedState =
       (None, lockedState\<lparr>sweepCalls := sweepCalls lockedState @ [(''0xw'', ''0xdead'', ''TKN'', ''Token'', 100, High)]\<rparr>)"
  using sweepToken_lock_held [of lockedState "''0xw''" "''0xdead''" exampleWeb3 "''TKN''" "''Token''" 100 High "[]"]
  by (simp add: lockedState_def)

lemma example_not_eligible: "\<not> eligible exampleState ''0xw'' ''0xdead'' 100"
  by (simp add: eligible_def exampleState_def exampleConfig_def getTokenValueUSD_def
        mockPrices_def toLowerCase_def lowerChar_def js_lt_def)

text \<open>
  C1 as stated says that exactly one of the overlapping calls submits. Here the first call's
  amount is worth less than the wallet's threshold: the overlapping call returns null at
  the guard, the first call returns null at the threshold, and nothing is submitted.
\<close>

theorem overlapping_sweeps_submit_nothing:
  "fst (overlappingSweeps exampleWeb3 ''0xw'' ''0xdead'' (''TKN'', ''Token'', 100, High)
          [(''TKN'', ''Token'', 100, High)] exampleState) = [None, None]
   \<and> submitted (snd (overlappingSweeps exampleWeb3 ''0xw'' ''0xdead'' (''TKN'', ''Token'', 100, High)
          [(''TKN'', ''Token'', 100, High)] exampleState)) = []"
proof -
  have f: "submitted exampleState = []"
    by (simp add: exampleState_def initialState_def)
  show ?thesis
    using overlappingSweeps_shape [of exampleWeb3 "''0xw''" "''0xdead''" "''TKN''" "''Token''" 100 High
            "[(''TKN'', ''Token'', 100, High)]" exampleState]
          overlappingSweeps_submitted [of exampleWeb3 "''0xw''" "''0xdead''" "''TKN''" "''Token''" 100 High
            "[(''TKN'', ''Token'', 100, High)]" exampleState]
          example_not_eligible f
    by auto
qed

text \<open>
  C3. A call of \<open>sweepToken\<close> whose amount is worth strictly less than the minimum
  transfer amount of the wallet's configuration returns null, submits no transfer and
  creates no transaction record; when the configuration is active it leaves the
  transaction and activity records as they are.
\<close>

theorem sweepToken_below_minimum:
  assumes cfg: "getWalletConfig s w = Some cfg"
    and below: "js_lt (getTokenValueUSD t bal) (cfg_minTransferAmount cfg)"
  shows "fst (sweepToken web3 w t tsym tname bal urg s) = None
       \<and> submitted (snd (sweepToken web3 w t tsym tname bal urg s)) = submitted s
       \<and> map tx_id (transactions (snd (sweepToken web3 w t tsym tname bal urg s))) = map tx_id (transactions s)
       \<and> (cfg_isActive cfg \<longrightarrow>
            transactions (snd (sweepToken web3 w t tsym tname bal urg s)) = transactions s
          \<and> activities (snd (sweepToken web3 w t tsym tname bal urg s)) = activities s)"
proof (cases "activeSweeps s (sweepKey w t) = Some True")
  case True
  then show ?thesis by (simp add: sweepToken_locked)
next
  case False
  let ?s1 = "s\<lparr>sweepCalls := sweepCalls s @ [(w, t, tsym, tname, bal, urg)],
               activeSweeps := (activeSweeps s)(sweepKey w t \<mapsto> True)\<rparr>"
  have c: "walletConfigs ?s1 w = Some cfg" using cfg by simp
  have t: "sweepTry web3 w t tsym tname bal urg ?s1 =
             ((if cfg_isActive cfg then Inr None else Inl ''Wallet not configured or inactive''), ?s1)"
    by (rule sweepTry_below [OF c below])
  have "sweepToken web3 w t tsym tname bal urg s = sweepBody web3 w t tsym tname bal urg ?s1"
    using False by (simp add: sweepToken_def)
  then show ?thesis
    by (simp add: sweepBody_def t)
qed

lemma usdc_value: "getTokenValueUSD ''0xA0b86a33E6441b56C6B15fb8b0BeaDDD8F1aF6c4'' 5 = 5"
  by code_simp

theorem sweepToken_below_minimum_witness:
  "getWalletConfig exampleState ''0xw'' = Some exampleConfig
   \<and> js_lt (getTokenValueUSD ''0xA0b86a33E6441b56C6B15fb8b0BeaDDD8F1aF6c4'' 5) (cfg_minTransferAmount exampleConfig)
   \<and> cfg_isActive exampleConfig
   \<and> fst (sweepToken exampleWeb3 ''0xw'' ''0xA0b86a33E6441b56C6B15fb8b0BeaDDD8F1aF6c4'' ''USDC'' ''USD Coin'' 5 High exampleState) = None
   \<and> transactions (snd (sweepToken exampleWeb3 ''0xw'' ''0xA0b86a33E6441b56C6B15fb8b0BeaDDD8F1aF6c4'' ''USDC'' ''USD Coin'' 5 High exampleState)) = []
   \<and> submitted (snd (sweepToken exampleWeb3 ''0xw'' ''0xA0b86a33E6441b56C6B15fb8b0BeaDDD8F1aF6c4'' ''USDC'' ''USD Coin'' 5 High exampleState)) = []"
proof -
  have c: "getWalletConfig exampleState ''0xw'' = Some exampleConfig"
    by (simp add: exampleState_def)
  have b: "js_lt (getTokenValueUSD ''0xA0b86a33E6441b56C6B15fb8b0BeaDDD8F1aF6c4'' 5) (cfg_minTransferAmount exampleConfig)"
    by (simp add: usdc_value js_lt_def exampleConfig_def)
  have a: "cfg_isActive exampleConfig" by (simp add: exampleConfig_def)
  have e: "transactions exampleState = []" "submitted exampleState = []"
    by (simp_all add: exampleState_def initialState_def)
  show ?thesis
    using sweepToken_below_minimum [OF c b, of exampleWeb3 "''USDC''" "''USD Coin''" High] a c b e
    by simp
qed

lemma mockPrices_dom:
  "mockPrices a \<noteq> None \<longleftrightarrow>
     a \<in> {''0xa0b86a33e6441b56c6b15fb8b0beaddd8f1af6c4'', ''0x514910771af9ca656af840dff83e8264ecf986ca'',
          ''0x1f9840a85d5af5bf1d1762f925bdaddc4201f984'', ''0x2260fac5e5542a773aa44fbcfedf7c193bc2c599'',
          ''0x7fc66500c84a76ad7e9c93437bfc5ac33e2ddae9''}"
  unfolding mockPrices_def by (simp only: map_of.simps fun_upd_apply fst_conv snd_conv insert_iff empty_iff split: if_splits) auto

text \<open>
  C10. The valuation used by the threshold check knows five token addresses and is 0 for
  every other one. For a token outside the table and a wallet whose configured minimum is
  positive, \<open>sweepToken\<close> returns null, submits nothing and creates no transaction; when
  the call reaches the threshold check (active configuration, lock free) it leaves at that
  check, and the only traces are the call itself and the released lock.
\<close>

theorem sweepToken_unpriced_token:
  assumes out: "toLowerCase t \<notin>
       {''0xa0b86a33e6441b56c6b15fb8b0beaddd8f1af6c4'', ''0x514910771af9ca656af840dff83e8264ecf986ca'',
        ''0x1f9840a85d5af5bf1d1762f925bdaddc4201f984'', ''0x2260fac5e5542a773aa44fbcfedf7c193bc2c599'',
        ''0x7fc66500c84a76ad7e9c93437bfc5ac33e2ddae9''}"
    and cfg: "getWalletConfig s w = Some cfg"
    and pos: "cfg_minTransferAmount cfg = Some m" "0 < m"
  shows "dom mockPrices =
          {''0xa0b86a33e6441b56c6b15fb8b0beaddd8f1af6c4'', ''0x514910771af9ca656af840dff83e8264ecf986ca'',
           ''0x1f9840a85d5af5bf1d1762f925bdaddc4201f984'', ''0x2260fac5e5542a773aa44fbcfedf7c193bc2c599'',
           ''0x7fc66500c84a76ad7e9c93437bfc5ac33e2ddae9''}
       \<and> getTokenValueUSD t bal = 0
       \<and> fst (sweepToken web3 w t tsym tname bal urg s) = None
       \<and> submitted (snd (sweepToken web3 w t tsym tname bal urg s)) = submitted s
       \<and> map tx_id (transactions (snd (sweepToken web3 w t tsym tname bal urg s))) = map tx_id (transactions s)
       \<and> (cfg_isActive cfg \<and> activeSweeps s (sweepKey w t) \<noteq> Some True \<longrightarrow>
            snd (sweepToken web3 w t tsym tname bal urg s) =
              s\<lparr>sweepCalls := sweepCalls s @ [(w, t, tsym, tname, bal, urg)],
                activeSweeps := (activeSweeps s)(sweepKey w t := None)\<rparr>)"
proof -
  have n: "mockPrices (toLowerCase t) = None"
    using out mockPrices_dom [of "toLowerCase t"] by blast
  then have v: "getTokenValueUSD t bal = 0" by (simp add: getTokenValueUSD_def)
  have below: "js_lt (getTokenValueUSD t bal) (cfg_minTransferAmount cfg)"
    using pos by (simp add: v js_lt_def)
  have main: "fst (sweepToken web3 w t tsym tname bal urg s) = None
       \<and> submitted (snd (sweepToken web3 w t tsym tname bal urg s)) = submitted s
       \<and> map tx_id (transactions (snd (sweepToken web3 w t tsym tname bal urg s))) = map tx_id (transactions s)"
  proof (cases "activeSweeps s (sweepKey w t) = Some True")
    case True
    then show ?thesis by (simp add: sweepToken_locked)
  next
    case False
    let ?s1 = "s\<lparr>sweepCalls := sweepCalls s @ [(w, t, tsym, tname, bal, urg)],
                 activeSweeps := (activeSweeps s)(sweepKey w t \<mapsto> True)\<rparr>"
    have c: "walletConfigs ?s1 w = Some cfg" using cfg by simp
    have "sweepToken web3 w t tsym tname bal urg s = sweepBody web3 w t tsym tname bal urg ?s1"
      using False by (simp add: sweepToken_def)
    then show ?thesis
      by (simp add: sweepBody_def sweepTry_below [OF c below])
  qed
  have exact: "snd (sweepToken web3 w t tsym tname bal urg s) =
              s\<lparr>sweepCalls := sweepCalls s @ [(w, t, tsym, tname, bal, urg)],
                activeSweeps := (activeSweeps s)(sweepKey w t := None)\<rparr>"
    if "cfg_isActive cfg" "activeSweeps s (sweepKey w t) \<noteq> Some True"
  proof -
    let ?s1 = "s\<lparr>sweepCalls := sweepCalls s @ [(w, t, tsym, tname, bal, urg)],
                 activeSweeps := (activeSweeps s)(sweepKey w t \<mapsto> True)\<rparr>"
    have c: "walletConfigs ?s1 w = Some cfg" using cfg by simp
    have "sweepToken web3 w t tsym tname bal urg s = sweepBody web3 w t tsym tname bal urg ?s1"
      using that by (simp add: sweepToken_def)
    then show ?thesis
      using that by (simp add: sweepBody_def sweepTry_below [OF c below])
  qed
  have d: "dom mockPrices =
          {''0xa0b86a33e6441b56c6b15fb8b0beaddd8f1af6c4'', ''0x514910771af9ca656af840dff83e8264ecf986ca'',
           ''0x1f9840a85d5af5bf1d1762f925bdaddc4201f984'', ''0x2260fac5e5542a773aa44fbcfedf7c193bc2c599'',
           ''0x7fc66500c84a76ad7e9c93437bfc5ac33e2ddae9''}"
    using mockPrices_dom by (auto simp: dom_def)
  show ?thesis using d v main exact by blast
qed

lemma dead_lower: "toLowerCase ''0xDEAD'' = ''0xdead''"
  by code_simp

theorem sweepToken_unpriced_token_witness:
  "getWalletConfig exampleState ''0xw'' = Some exampleConfig
   \<and> cfg_minTransferAmount exampleConfig = Some 10
   \<and> getTokenValueUSD ''0xDEAD'' 100 = 0
   \<and> fst (sweepToken exampleWeb3 ''0xw'' ''0xDEAD'' ''TKN'' ''Token'' 100 High exampleState) = None
   \<and> submitted (snd (sweepToken exampleWeb3 ''0xw'' ''0xDEAD'' ''TKN'' ''Token'' 100 High exampleState)) = []"
proof -
  have o: "toLowerCase ''0xDEAD'' \<notin>
       {''0xa0b86a33e6441b56c6b15fb8b0beaddd8f1af6c4'', ''0x514910771af9ca656af840dff83e8264ecf986ca'',
        ''0x1f9840a85d5af5bf1d1762f925bdaddc4201f984'', ''0x2260fac5e5542a773aa44fbcfedf7c193bc2c599'',
        ''0x7fc66500c84a76ad7e9c93437bfc5ac33e2ddae9''}"
    by (simp add: dead_lower)
  have c: "getWalletConfig exampleState ''0xw'' = Some exampleConfig"
    by (simp add: exampleState_def)
  have m: "cfg_minTransferAmount exampleConfig = Some 10" "(0::rat) < 10"
    by (simp_all add: exampleConfig_def)
  have e: "submitted exampleState = []"
    by (simp add: exampleState_def initialState_def)
  show ?thesis
    using sweepToken_unpriced_token [OF o c m, of 100 exampleWeb3 "''TKN''" "''Token''" High] c m e
    by simp
qed

section \<open>The fee price\<close>







section \<open>What a sweep and a scan leave unchanged\<close>

lemma sweepTry_frame [simp]:
  "walletConfigs (snd (sweepTry web3 w t tsym tname bal urg s)) = walletConfigs s"
  "monitoringWallets (snd (sweepTry web3 w t tsym tname bal urg s)) = monitoringWallets s"
  "intervals (snd (sweepTry web3 w t tsym tname bal urg s)) = intervals s"
  "nextTimer (snd (sweepTry web3 w t tsym tname bal urg s)) = nextTimer s"
  "runningScans (snd (sweepTry web3 w t tsym tname bal urg s)) = runningScans s"
  "currentNetworkLoad (snd (sweepTry web3 w t tsym tname bal urg s)) = currentNetworkLoad s"
  "receiptQueries (snd (sweepTry web3 w t tsym tname bal urg s)) = receiptQueries s"
  "specificTokensToMonitor (snd (sweepTry web3 w t tsym tname bal urg s)) = specificTokensToMonitor s"
  "tokenDetections (snd (sweepTry web3 w t tsym tname bal urg s)) = tokenDetections s"
  "knownTokens (snd (sweepTry web3 w t tsym tname bal urg s)) = knownTokens s"
  "activeSweeps (snd (sweepTry web3 w t tsym tname bal urg s)) = activeSweeps s"
  "sweepCalls (snd (sweepTry web3 w t tsym tname bal urg s)) = sweepCalls s"
  by (simp_all add: sweepTry_def Let_def case_prod_beta split: option.splits)

lemma sweepCatch_unchanged [simp]:
  "walletConfigs (sweepCatch web3 w t s) = walletConfigs s"
  "monitoringWallets (sweepCatch web3 w t s) = monitoringWallets s"
  "intervals (sweepCatch web3 w t s) = intervals s"
  "nextTimer (sweepCatch web3 w t s) = nextTimer s"
  "runningScans (sweepCatch web3 w t s) = runningScans s"
  "currentNetworkLoad (sweepCatch web3 w t s) = currentNetworkLoad s"
  "receiptQueries (sweepCatch web3 w t s) = receiptQueries s"
  "specificTokensToMonitor (sweepCatch web3 w t s) = specificTokensToMonitor s"
  "knownTokens (sweepCatch web3 w t s) = knownTokens s"
  "clock (sweepCatch web3 w t s) = clock s"
  "timeouts (sweepCatch web3 w t s) = timeouts s"
  by (simp_all add: sweepCatch_def Let_def split: option.splits)

lemma sweepBody_frame [simp]:
  "walletConfigs (snd (sweepBody web3 w t tsym tname bal urg s)) = walletConfigs s"
  "monitoringWallets (snd (sweepBody web3 w t tsym tname bal urg s)) = monitoringWallets s"
  "intervals (snd (sweepBody web3 w t tsym tname bal urg s)) = intervals s"
  "nextTimer (snd (sweepBody web3 w t tsym tname bal urg s)) = nextTimer s"
  "runningScans (snd (sweepBody web3 w t tsym tname bal urg s)) = runningScans s"
  "currentNetworkLoad (snd (sweepBody web3 w t tsym tname bal urg s)) = currentNetworkLoad s"
  "receiptQueries (snd (sweepBody web3 w t tsym tname bal urg s)) = receiptQueries s"
  "specificTokensToMonitor (snd (sweepBody web3 w t tsym tname bal urg s)) = specificTokensToMonitor s"
  "tokenDetections (snd (sweepBody web3 w t tsym tname bal urg s)) = tokenDetections s"
  "knownTokens (snd (sweepBody web3 w t tsym tname bal urg s)) = knownTokens s"
  "sweepCalls (snd (sweepBody web3 w t tsym tname bal urg s)) = sweepCalls s"
  by (simp_all add: sweepBody_def Let_def case_prod_beta split: sum.splits)

lemma sweepToken_frame [simp]:
  "walletConfigs (snd (sweepToken web3 w t tsym tname bal urg s)) = walletConfigs s"
  "monitoringWallets (snd (sweepToken web3 w t tsym tname bal urg s)) = monitoringWallets s"
  "intervals (snd (sweepToken web3 w t tsym tname bal urg s)) = intervals s"
  "nextTimer (snd (sweepToken web3 w t tsym tname bal urg s)) = nextTimer s"
  "runningScans (snd (sweepToken web3 w t tsym tname bal urg s)) = runningScans s"
  "currentNetworkLoad (snd (sweepToken web3 w t tsym tname bal urg s)) = currentNetworkLoad s"
  "receiptQueries (snd (sweepToken web3 w t tsym tname bal urg s)) = receiptQueries s"
  "specificTokensToMonitor (snd (sweepToken web3 w t tsym tname bal urg s)) = specificTokensToMonitor s"
  "tokenDetections (snd (sweepToken web3 w t tsym tname bal urg s)) = tokenDetections s"
  "knownTokens (snd (sweepToken web3 w t tsym tname bal urg s)) = knownTokens s"
  by (simp_all add: sweepToken_def Let_def)

lemma sweepToken_sweepCalls [simp]:
  "sweepCalls (snd (sweepToken web3 w t tsym tname bal urg s)) = sweepCalls s @ [(w, t, tsym, tname, bal, urg)]"
  by (simp add: sweepToken_def Let_def)

lemma handleNewTokenDetection_frame [simp]:
  "walletConfigs (handleNewTokenDetection web3 w t tname tsym bal s) = walletConfigs s"
  "monitoringWallets (handleNewTokenDetection web3 w t tname tsym bal s) = monitoringWallets s"
  "intervals (handleNewTokenDetection web3 w t tname tsym bal s) = intervals s"
  "nextTimer (handleNewTokenDetection web3 w t tname tsym bal s) = nextTimer s"
  "runningScans (handleNewTokenDetection web3 w t tname tsym bal s) = runningScans s"
  "currentNetworkLoad (handleNewTokenDetection web3 w t tname tsym bal s) = currentNetworkLoad s"
  "receiptQueries (handleNewTokenDetection web3 w t tname tsym bal s) = receiptQueries s"
  "specificTokensToMonitor (handleNewTokenDetection web3 w t tname tsym bal s) = specificTokensToMonitor s"
  "knownTokens (handleNewTokenDetection web3 w t tname tsym bal s) = knownTokens s"
  "sweepCalls (handleNewTokenDetection web3 w t tname tsym bal s) = sweepCalls s"
  "activeSweeps (handleNewTokenDetection web3 w t tname tsym bal s) = activeSweeps s"
  "clock (handleNewTokenDetection web3 w t tname tsym bal s) = clock s"
  "submitted (handleNewTokenDetection web3 w t tname tsym bal s) = submitted s"
  "transactions (handleNewTokenDetection web3 w t tname tsym bal s) = transactions s"
  "timeouts (handleNewTokenDetection web3 w t tname tsym bal s) = timeouts s"
  "broadcasts (handleNewTokenDetection web3 w t tname tsym bal s) = broadcasts s"
  by (simp_all add: handleNewTokenDetection_def Let_def)

lemma checkTradingStatus_frame [simp]:
  "walletConfigs (checkTradingStatus web3 w t tsym s) = walletConfigs s"
  "monitoringWallets (checkTradingStatus web3 w t tsym s) = monitoringWallets s"
  "intervals (checkTradingStatus web3 w t tsym s) = intervals s"
  "nextTimer (checkTradingStatus web3 w t tsym s) = nextTimer s"
  "runningScans (checkTradingStatus web3 w t tsym s) = runningScans s"
  "currentNetworkLoad (checkTradingStatus web3 w t tsym s) = currentNetworkLoad s"
  "receiptQueries (checkTradingStatus web3 w t tsym s) = receiptQueries s"
  "specificTokensToMonitor (checkTradingStatus web3 w t tsym s) = specificTokensToMonitor s"
  "knownTokens (checkTradingStatus web3 w t tsym s) = knownTokens s"
  by (simp_all add: checkTradingStatus_def Let_def split: option.splits)

lemma scanKnownToken_frame [simp]:
  "walletConfigs (scanKnownToken web3 w ex e s) = walletConfigs s"
  "monitoringWallets (scanKnownToken web3 w ex e s) = monitoringWallets s"
  "intervals (scanKnownToken web3 w ex e s) = intervals s"
  "nextTimer (scanKnownToken web3 w ex e s) = nextTimer s"
  "runningScans (scanKnownToken web3 w ex e s) = runningScans s"
  "currentNetworkLoad (scanKnownToken web3 w ex e s) = currentNetworkLoad s"
  "receiptQueries (scanKnownToken web3 w ex e s) = receiptQueries s"
  "specificTokensToMonitor (scanKnownToken web3 w ex e s) = specificTokensToMonitor s"
  "knownTokens (scanKnownToken web3 w ex e s) = knownTokens s"
  by (simp_all add: scanKnownToken_def Let_def split: option.splits prod.splits)

lemma upsertSpecificDetection_frame [simp]:
  "walletConfigs (snd (upsertSpecificDetection web3 w t tname tsym bal s)) = walletConfigs s"
  "monitoringWallets (snd (upsertSpecificDetection web3 w t tname tsym bal s)) = monitoringWallets s"
  "intervals (snd (upsertSpecificDetection web3 w t tname tsym bal s)) = intervals s"
  "nextTimer (snd (upsertSpecificDetection web3 w t tname tsym bal s)) = nextTimer s"
  "runningScans (snd (upsertSpecificDetection web3 w t tname tsym bal s)) = runningScans s"
  "currentNetworkLoad (snd (upsertSpecificDetection web3 w t tname tsym bal s)) = currentNetworkLoad s"
  "receiptQueries (snd (upsertSpecificDetection web3 w t tname tsym bal s)) = receiptQueries s"
  "specificTokensToMonitor (snd (upsertSpecificDetection web3 w t tname tsym bal s)) = specificTokensToMonitor s"
  "knownTokens (snd (upsertSpecificDetection web3 w t tname tsym bal s)) = knownTokens s"
  "sweepCalls (snd (upsertSpecificDetection web3 w t tname tsym bal s)) = sweepCalls s"
  "clock (snd (upsertSpecificDetection web3 w t tname tsym bal s)) = clock s"
  "activeSweeps (snd (upsertSpecificDetection web3 w t tname tsym bal s)) = activeSweeps s"
  "submitted (snd (upsertSpecificDetection web3 w t tname tsym bal s)) = submitted s"
  "transactions (snd (upsertSpecificDetection web3 w t tname tsym bal s)) = transactions s"
  by (simp_all add: upsertSpecificDetection_def Let_def split: option.splits)

lemma checkSpecificTrading_frame [simp]:
  "walletConfigs (checkSpecificTrading web3 w t tname tsym bal d s) = walletConfigs s"
  "monitoringWallets (checkSpecificTrading web3 w t tname tsym bal d s) = monitoringWallets s"
  "intervals (checkSpecificTrading web3 w t tname tsym bal d s) = intervals s"
  "nextTimer (checkSpecificTrading web3 w t tname tsym bal d s) = nextTimer s"
  "runningScans (checkSpecificTrading web3 w t tname tsym bal d s) = runningScans s"
  "currentNetworkLoad (checkSpecificTrading web3 w t tname tsym bal d s) = currentNetworkLoad s"
  "receiptQueries (checkSpecificTrading web3 w t tname tsym bal d s) = receiptQueries s"
  "specificTokensToMonitor (checkSpecificTrading web3 w t tname tsym bal d s) = specificTokensToMonitor s"
  "knownTokens (checkSpecificTrading web3 w t tname tsym bal d s) = knownTokens s"
  by (simp_all add: checkSpecificTrading_def Let_def split: option.splits)

lemma scanSpecificToken_frame [simp]:
  "walletConfigs (scanSpecificToken web3 w t s) = walletConfigs s"
  "monitoringWallets (scanSpecificToken web3 w t s) = monitoringWallets s"
  "intervals (scanSpecificToken web3 w t s) = intervals s"
  "nextTimer (scanSpecificToken web3 w t s) = nextTimer s"
  "runningScans (scanSpecificToken web3 w t s) = runningScans s"
  "currentNetworkLoad (scanSpecificToken web3 w t s) = currentNetworkLoad s"
  "receiptQueries (scanSpecificToken web3 w t s) = receiptQueries s"
  "specificTokensToMonitor (scanSpecificToken web3 w t s) = specificTokensToMonitor s"
  by (simp_all add: scanSpecificToken_def Let_def case_prod_beta split: option.splits)

lemma fold_frame:
  assumes "\<And>x s. f (step x s) = f s"
  shows "f (fold step xs s) = f s"
  by (induction xs arbitrary: s) (simp_all add: assms)

section \<open>Confirmation polling\<close>

lemma checkReceipt_queries:
  "receiptQueries (snd (checkReceipt web3 d p s)) = receiptQueries s @ [(d, poll_txHash p)]"
  by (simp add: checkReceipt_def Let_def split: ReceiptResult.splits)

lemma checkReceipt_rearm:
  assumes "checkReceipt web3 d p s = (Some p', s')"
  shows "p' = p\<lparr>poll_attempts := Suc (poll_attempts p)\<rparr> \<and> Suc (poll_attempts p) < maxAttempts"
  using assms by (auto simp: checkReceipt_def Let_def split: ReceiptResult.splits if_splits)

lemma checkReceipt_no_receipt:
  assumes "getTransactionReceipt web3 (clock s) (poll_txHash p) = NoReceipt"
  shows "checkReceipt web3 d p s =
           ((if Suc (poll_attempts p) < maxAttempts then Some (p\<lparr>poll_attempts := Suc (poll_attempts p)\<rparr>) else None),
            tick (s\<lparr>receiptQueries := receiptQueries s @ [(d, poll_txHash p)]\<rparr>))"
  using assms by (simp add: checkReceipt_def Let_def)

lemma pollReceipt_bound:
  "length (receiptQueries (pollReceipt web3 d p s))
     \<le> length (receiptQueries s) + max 1 (maxAttempts - poll_attempts p)"
proof (induction web3 d p s rule: pollReceipt.induct)
  case (1 web3 delay p s)
  obtain r s' where c: "checkReceipt web3 delay p s = (r, s')" by (cases "checkReceipt web3 delay p s")
  have q: "length (receiptQueries s') = Suc (length (receiptQueries s))"
    using checkReceipt_queries [of web3 delay p s] c by simp
  show ?case
  proof (cases r)
    case None
    then show ?thesis using c q by (simp add: pollReceipt.simps [of web3 delay p s])
  next
    case (Some p')
    have r: "p' = p\<lparr>poll_attempts := Suc (poll_attempts p)\<rparr>" "Suc (poll_attempts p) < maxAttempts"
      using checkReceipt_rearm c Some by blast+
    have "length (receiptQueries (pollReceipt web3 5000 p' s'))
            \<le> length (receiptQueries s') + max 1 (maxAttempts - poll_attempts p')"
      using "1.IH" c Some by simp
    then show ?thesis
      using c Some q r by (simp add: pollReceipt.simps [of web3 delay p s])
  qed
qed

lemma pollReceipt_no_receipt:
  assumes "\<forall>n. getTransactionReceipt web3 n (poll_txHash p) = NoReceipt"
  shows "receiptQueries (pollReceipt web3 d p s) =
           receiptQueries s @ (d, poll_txHash p)
             # replicate (maxAttempts - Suc (poll_attempts p)) (5000, poll_txHash p)
       \<and> transactions (pollReceipt web3 d p s) = transactions s
       \<and> activities (pollReceipt web3 d p s) = activities s
       \<and> broadcasts (pollReceipt web3 d p s) = broadcasts s
       \<and> timeouts (pollReceipt web3 d p s) = timeouts s"
  using assms
proof (induction web3 d p s rule: pollReceipt.induct)
  case (1 web3 delay p s)
  let ?s' = "tick (s\<lparr>receiptQueries := receiptQueries s @ [(delay, poll_txHash p)]\<rparr>)"
  let ?p' = "p\<lparr>poll_attempts := Suc (poll_attempts p)\<rparr>"
  have n: "getTransactionReceipt web3 (clock s) (poll_txHash p) = NoReceipt" using "1.prems" by simp
  note c = checkReceipt_no_receipt [OF n, of delay]
  show ?case
  proof (cases "Suc (poll_attempts p) < maxAttempts")
    case False
    then show ?thesis
      by (simp add: pollReceipt.simps [of web3 delay p s] c)
  next
    case True
    have ih: "receiptQueries (pollReceipt web3 5000 ?p' ?s') =
           receiptQueries ?s' @ (5000, poll_txHash ?p')
             # replicate (maxAttempts - Suc (poll_attempts ?p')) (5000, poll_txHash ?p')
       \<and> transactions (pollReceipt web3 5000 ?p' ?s') = transactions ?s'
       \<and> activities (pollReceipt web3 5000 ?p' ?s') = activities ?s'
       \<and> broadcasts (pollReceipt web3 5000 ?p' ?s') = broadcasts ?s'
       \<and> timeouts (pollReceipt web3 5000 ?p' ?s') = timeouts ?s'"
      using "1.IH" [OF c [symmetric]] True "1.prems" by simp
    have rep: "(5000, poll_txHash p) # replicate (maxAttempts - Suc (Suc (poll_attempts p))) (5000, poll_txHash p)
               = replicate (maxAttempts - Suc (poll_attempts p)) (5000, poll_txHash p)"
      using True by (metis Suc_diff_Suc replicate_Suc)
    have u: "pollReceipt web3 delay p s = pollReceipt web3 5000 ?p' ?s'"
      using True by (simp add: pollReceipt.simps [of web3 delay p s] c)
    show ?thesis
      unfolding u using ih rep by simp
  qed
qed

text \<open>
  C8. The poll that \<open>monitorTransactionReceipt\<close> starts is armed with a delay of 10000 ms
  and re-armed with 5000 ms; it makes at most 60 receipt queries and then ends (the function
  is total, and a rejected query is a value of the oracle, not an exception). When no
  receipt arrives it makes exactly 60 queries and leaves the transaction records, the
  activity records and the armed timers as they were: nothing retries.
\<close>

theorem confirmation_polling_bounded:
  "timeouts (monitorTransactionReceipt i h w s) = timeouts s @ [(10000, firstPoll i h w)]
   \<and> length (receiptQueries (pollReceipt web3 10000 (firstPoll i h w) s)) \<le> length (receiptQueries s) + 60
   \<and> ((\<forall>n. getTransactionReceipt web3 n h = NoReceipt) \<longrightarrow>
         receiptQueries (pollReceipt web3 10000 (firstPoll i h w) s) =
           receiptQueries s @ (10000, h) # replicate 59 (5000, h)
       \<and> transactions (pollReceipt web3 10000 (firstPoll i h w) s) = transactions s
       \<and> activities (pollReceipt web3 10000 (firstPoll i h w) s) = activities s
       \<and> timeouts (pollReceipt web3 10000 (firstPoll i h w) s) = timeouts s)"
proof -
  have a: "timeouts (monitorTransactionReceipt i h w s) = timeouts s @ [(10000, firstPoll i h w)]"
    by (simp add: monitorTransactionReceipt_def firstPoll_def)
  have b: "length (receiptQueries (pollReceipt web3 10000 (firstPoll i h w) s)) \<le> length (receiptQueries s) + 60"
    using pollReceipt_bound [of web3 10000 "firstPoll i h w" s] by (simp add: firstPoll_def maxAttempts_def)
  have c: "receiptQueries (pollReceipt web3 10000 (firstPoll i h w) s) =
           receiptQueries s @ (10000, h) # replicate 59 (5000, h)
       \<and> transactions (pollReceipt web3 10000 (firstPoll i h w) s) = transactions s
       \<and> activities (pollReceipt web3 10000 (firstPoll i h w) s) = activities s
       \<and> timeouts (pollReceipt web3 10000 (firstPoll i h w) s) = timeouts s"
    if "\<forall>n. getTransactionReceipt web3 n h = NoReceipt"
    using pollReceipt_no_receipt [of web3 "firstPoll i h w" 10000 s] that
    by (simp add: firstPoll_def maxAttempts_def)
  show ?thesis using a b c by blast
qed

theorem confirmation_polling_bounded_witness:
  "(\<forall>n. getTransactionReceipt exampleWeb3 n ''0xhash'' = NoReceipt)
   \<and> length (receiptQueries (pollReceipt exampleWeb3 10000 (firstPoll 0 ''0xhash'' ''0xw'') exampleState)) = 60
   \<and> transactions (pollReceipt exampleWeb3 10000 (firstPoll 0 ''0xhash'' ''0xw'') exampleState) = []"
proof -
  have n: "\<forall>n. getTransactionReceipt exampleWeb3 n ''0xhash'' = NoReceipt"
    by (simp add: exampleWeb3_def)
  have e: "receiptQueries exampleState = []" "transactions exampleState = []"
    by (simp_all add: exampleState_def initialState_def)
  show ?thesis
    using confirmation_polling_bounded [of 0 "''0xhash''" "''0xw''" exampleState exampleWeb3] n e
    by simp
qed

section \<open>Registering and probing a token\<close>

lemma addSpecificTokenToMonitor_frame [simp]:
  "clock (addSpecificTokenToMonitor w t s) = clock s"
  "walletConfigs (addSpecificTokenToMonitor w t s) = walletConfigs s"
  "sweepCalls (addSpecificTokenToMonitor w t s) = sweepCalls s"
  "tokenDetections (addSpecificTokenToMonitor w t s) = tokenDetections s"
  "intervals (addSpecificTokenToMonitor w t s) = intervals s"
  "runningScans (addSpecificTokenToMonitor w t s) = runningScans s"
  "monitoringWallets (addSpecificTokenToMonitor w t s) = monitoringWallets s"
  by (simp_all add: addSpecificTokenToMonitor_def Let_def)



section \<open>The recurring scan timer\<close>

lemma scanWalletForTokens_frame [simp]:
  "walletConfigs (scanWalletForTokens web3 w s) = walletConfigs s"
  "monitoringWallets (scanWalletForTokens web3 w s) = monitoringWallets s"
  "intervals (scanWalletForTokens web3 w s) = intervals s"
  "nextTimer (scanWalletForTokens web3 w s) = nextTimer s"
  "runningScans (scanWalletForTokens web3 w s) = runningScans s"
  "specificTokensToMonitor (scanWalletForTokens web3 w s) = specificTokensToMonitor s"
  unfolding scanWalletForTokens_def Let_def
  by (rule fold_frame, simp)+

lemma scanSpecificTokens_frame [simp]:
  "walletConfigs (scanSpecificTokens web3 w s) = walletConfigs s"
  "monitoringWallets (scanSpecificTokens web3 w s) = monitoringWallets s"
  "intervals (scanSpecificTokens web3 w s) = intervals s"
  "nextTimer (scanSpecificTokens web3 w s) = nextTimer s"
  "runningScans (scanSpecificTokens web3 w s) = runningScans s"
  by (simp_all add: scanSpecificTokens_def fold_frame split: option.splits)

lemma lower_w: "toLowerCase ''0xw'' = ''0xw''"
  by code_simp

text \<open>
  C5, as amended. Every call of \<open>startMonitoring\<close> runs an immediate scan and arms one
  more recurring timer for the wallet, next to the timers already armed; for a wallet that is
  monitored already it leaves the set of monitored wallets as it is.
\<close>

theorem startMonitoring_arms_another_timer:
  "intervals (startMonitoring web3 w s) = intervals s @ [(nextTimer s, w)]
   \<and> nextTimer (startMonitoring web3 w s) = Suc (nextTimer s)
   \<and> set (monitoringWallets (startMonitoring web3 w s)) = insert (toLowerCase w) (set (monitoringWallets s))
   \<and> (toLowerCase w \<in> set (monitoringWallets s) \<longrightarrow>
        monitoringWallets (startMonitoring web3 w s) = monitoringWallets s
      \<and> startMonitoring web3 w s = schedulePeriodicScan w (scanWalletForTokens web3 w s))"
  by (auto simp add: startMonitoring_def schedulePeriodicScan_def Let_def)

theorem startMonitoring_arms_another_timer_witness:
  "toLowerCase ''0xw'' \<in> set (monitoringWallets monitoredState)
   \<and> intervals (startMonitoring exampleWeb3 ''0xw'' monitoredState) = [(0, ''0xw''), (1, ''0xw'')]
   \<and> monitoringWallets (startMonitoring exampleWeb3 ''0xw'' monitoredState) = [''0xw'']"
  using startMonitoring_arms_another_timer [of exampleWeb3 "''0xw''" monitoredState]
  by (simp add: monitoredState_def lower_w schedulePeriodicScan_def)

text \<open>
  C5 as stated says that a second call does not leave two recurring timers for the wallet.
  After two calls for one wallet, two are armed.
\<close>

theorem startMonitoring_twice_two_timers:
  "intervals (fold (engineStep exampleWeb3) [StartMonitoring ''0xw'', StartMonitoring ''0xw''] exampleState)
     = [(0, ''0xw''), (1, ''0xw'')]"
  by (simp add: startMonitoring_def schedulePeriodicScan_def Let_def exampleState_def initialState_def)

text \<open>
  C4, as amended. A firing of a wallet's timer while the wallet is monitored starts a scan
  whether or not an earlier scan of the wallet is still running, and the timer stays armed;
  a firing that finds the wallet deregistered starts no scan and clears the timer; the
  completion of a scan does not touch the timers.
\<close>

theorem intervalFired_starts_scan:
  "map_of (intervals s) timer = Some w \<Longrightarrow>
     (toLowerCase w \<in> set (monitoringWallets s) \<longrightarrow>
        runningScans (intervalFired timer s) = runningScans s @ [w]
      \<and> intervals (intervalFired timer s) = intervals s)
   \<and> (toLowerCase w \<notin> set (monitoringWallets s) \<longrightarrow>
        runningScans (intervalFired timer s) = runningScans s
      \<and> intervals (intervalFired timer s) = filter (\<lambda>(t, a). t \<noteq> timer) (intervals s))
   \<and> intervals (scanCompleted web3 w s) = intervals s"
  by (simp add: intervalFired_def scanCompleted_def periodicScan_def Let_def)

theorem intervalFired_starts_scan_witness:
  "map_of (intervals monitoredState) 0 = Some ''0xw''
   \<and> toLowerCase ''0xw'' \<in> set (monitoringWallets monitoredState)
   \<and> runningScans (intervalFired 0 monitoredState) = [''0xw'']
   \<and> map_of (intervals (stopMonitoring ''0xw'' monitoredState)) 0 = Some ''0xw''
   \<and> toLowerCase ''0xw'' \<notin> set (monitoringWallets (stopMonitoring ''0xw'' monitoredState))
   \<and> intervals (intervalFired 0 (stopMonitoring ''0xw'' monitoredState)) = []"
  using intervalFired_starts_scan [of monitoredState 0 "''0xw''" exampleWeb3]
        intervalFired_starts_scan [of "stopMonitoring ''0xw'' monitoredState" 0 "''0xw''" exampleWeb3]
  by (simp add: monitoredState_def lower_w stopMonitoring_def exampleState_def initialState_def)

text \<open>
  C4 as stated says that two ticks for one wallet never overlap. When the timer fires twice
  before the first scan has completed, two scans of the wallet are running.
\<close>

theorem two_ticks_two_running_scans:
  "runningScans (fold (engineStep exampleWeb3) [StartMonitoring ''0xw'', IntervalFired 0, IntervalFired 0] exampleState)
     = [''0xw'', ''0xw'']"
  by (simp add: startMonitoring_def schedulePeriodicScan_def intervalFired_def Let_def lower_w
        exampleState_def initialState_def)

section \<open>Manual sweep\<close>

lemma detectedState_lookup:
  "findDetection (toLowerCase ''0xdead'') (getTokenDetections detectedState ''0xw'') =
     Some (hd (tokenDetections detectedState))"
  by code_simp

text \<open>
  C6. With a detection of the token in the wallet, \<open>manualSweepToken\<close> throws on the call
  of the missing method \<open>triggerAutoSweep\<close> and never reaches \<open>sweepToken\<close>, while
  the route handler for the same request forwards the detection to \<open>sweepToken\<close> with
  the caller's urgency, although the detection's flag is false.
\<close>

theorem manualSweepToken_throws:
  "manualSweepToken ''0xw'' ''0xdead'' detectedState =
     (Inl (TypeError ''this.triggerAutoSweep is not a function''), detectedState)
   \<and> sweepCalls (snd (sweepRoute exampleWeb3 ''0xw'' ''0xdead'' Low detectedState)) =
       [(''0xw'', ''0xdead'', ''TKN'', ''Token'', 100, Low)]"
  by (simp add: manualSweepToken_def sweepRoute_def detectedState_lookup case_prod_beta)
     (simp add: detectedState_def exampleState_def initialState_def)

section \<open>The transferability flag\<close>

lemma monotoneFlags_refl [simp]: "monotoneFlags ds ds"
  by (induction ds) auto













lemma checkReceipt_tokenDetections [simp]:
  "tokenDetections (snd (checkReceipt web3 d p s)) = tokenDetections s"
  by (simp add: checkReceipt_def Let_def split: ReceiptResult.splits)

lemma pollReceipt_tokenDetections [simp]:
  "tokenDetections (pollReceipt web3 d p s) = tokenDetections s"
proof (induction web3 d p s rule: pollReceipt.induct)
  case (1 web3 delay p s)
  obtain r s' where c: "checkReceipt web3 delay p s = (r, s')" by (cases "checkReceipt web3 delay p s")
  have t: "tokenDetections s' = tokenDetections s"
    using checkReceipt_tokenDetections [of web3 delay p s] c by simp
  show ?case
  proof (cases r)
    case None
    then show ?thesis using c t by (simp add: pollReceipt.simps [of web3 delay p s])
  next
    case (Some p')
    then show ?thesis using "1.IH" c t by (simp add: pollReceipt.simps [of web3 delay p s])
  qed
qed



subsection \<open>Every automatic sweep is paid for by a flag that changed\<close>



lemma enabledCount_frame [simp]:
  "enabledCount (tick s) = enabledCount s"
  "enabledCount (broadcast ty w s) = enabledCount s"
  "enabledCount (createActivity web3 w ty st s) = enabledCount s"
  "enabledCount (snd (sweepToken web3 w t tsym tname bal urg s)) = enabledCount s"
  "enabledCount (s\<lparr>knownTokens := k\<rparr>) = enabledCount s"
  by (simp_all add: enabledCount_def)

lemma pendingFlags_frame [simp]:
  "pendingFlags (tick s) i = pendingFlags s i"
  "pendingFlags (broadcast ty w s) i = pendingFlags s i"
  "pendingFlags (createActivity web3 w ty st s) i = pendingFlags s i"
  "pendingFlags (s\<lparr>knownTokens := k\<rparr>) i = pendingFlags s i"
  by (simp_all add: pendingFlags_def)

lemma getTokenDetections_frame [simp]:
  "getTokenDetections (tick s) w = getTokenDetections s w"
  "getTokenDetections (s\<lparr>knownTokens := k\<rparr>) w = getTokenDetections s w"
  by (simp_all add: getTokenDetections_def)

lemma enabledCount_handleNew [simp]:
  "enabledCount (handleNewTokenDetection web3 w t tname tsym bal s) = enabledCount s"
  by (simp add: enabledCount_def handleNewTokenDetection_def createTokenDetection_def Let_def)


lemma count_after_update:
  "length (filter P (updateWhere Q g ds)) = length (filter P ds)"
  if "\<And>d. P (g d) = P d"
  unfolding updateWhere_def by (induction ds) (simp_all add: that)

lemma count_after_flip:
  "length (filter P (updateWhere Q g ds)) = length (filter P ds) + length (filter (\<lambda>d. Q d \<and> \<not> P d) ds)"
  if "\<And>d. P (g d)"
  unfolding updateWhere_def by (induction ds) (simp_all add: that)

lemma enabledCount_balance [simp]:
  "enabledCount (updateTokenDetection web3 i \<lparr>upd_balance = b, upd_balanceUSD = bu, upd_tradingEnabled = None\<rparr> s)
     = enabledCount s"
  unfolding enabledCount_def updateTokenDetection_def
  by (simp add: count_after_update applyDetectionUpdates_def)

lemma pendingFlags_balance [simp]:
  "pendingFlags (updateTokenDetection web3 j \<lparr>upd_balance = b, upd_balanceUSD = bu, upd_tradingEnabled = None\<rparr> s) i
     = pendingFlags s i"
  unfolding pendingFlags_def updateTokenDetection_def
  by (simp add: count_after_update applyDetectionUpdates_def)

lemma enabledCount_flip [simp]:
  "enabledCount (updateTokenDetection web3 i \<lparr>upd_balance = None, upd_balanceUSD = None, upd_tradingEnabled = Some True\<rparr> s)
     = enabledCount s + pendingFlags s i"
  unfolding enabledCount_def pendingFlags_def updateTokenDetection_def
  by (simp add: count_after_flip applyDetectionUpdates_def)












lemma flags_after_balance [simp]:
  "map det_tradingEnabled (tokenDetections
     (updateTokenDetection web3 i \<lparr>upd_balance = b, upd_balanceUSD = bu, upd_tradingEnabled = None\<rparr> s))
   = map det_tradingEnabled (tokenDetections s)"
  by (simp add: updateTokenDetection_def updateWhere_def applyDetectionUpdates_def)







end
